theory Spec2Isabelle
  imports Main "HOL-Library.Char_ord" "HOL-Library.List_Lexorder" "HOL-Library.Code_Target_Nat"
begin

section \<open>Strings\<close>

text \<open>
  Python strings are modelled as HOL strings whose characters are the code points below 256.
  \<open>str.endswith\<close>, \<open>str.startswith\<close>, the slice \<open>s[-4:]\<close>, \<open>str.isdigit\<close> and
  \<open>str.replace\<close> (for a non-empty pattern) are written out.
\<close>

definition py_endswith :: "string \<Rightarrow> string \<Rightarrow> bool" where
  "py_endswith s suf = (length suf \<le> length s \<and> drop (length s - length suf) s = suf)"

definition py_startswith :: "string \<Rightarrow> string \<Rightarrow> bool" where
  "py_startswith s pre = (take (length pre) s = pre)"

definition last4 :: "string \<Rightarrow> string" where
  \<comment> \<open>\<open>s[-4:]\<close>: the last four characters, the whole string when it is shorter\<close>
  "last4 s = drop (length s - 4) s"

definition isdigit_char :: "char \<Rightarrow> bool" where
  \<comment> \<open>below code point 256 \<open>str.isdigit\<close> holds of 0..9 and of the superscripts
      U+00B2, U+00B3 and U+00B9\<close>
  "isdigit_char c = (let n = (of_char c :: nat) in (48 \<le> n \<and> n \<le> 57) \<or> n = 178 \<or> n = 179 \<or> n = 185)"

definition py_isdigit :: "string \<Rightarrow> bool" where
  "py_isdigit s = (s \<noteq> [] \<and> list_all isdigit_char s)"

fun replace_from :: "string \<Rightarrow> string \<Rightarrow> nat \<Rightarrow> string \<Rightarrow> string" where
  "replace_from old new k [] = []"
| "replace_from old new (Suc k) (c # cs) = replace_from old new k cs"
| "replace_from old new 0 (c # cs) =
     (if py_startswith (c # cs) old then new @ replace_from old new (length old - 1) cs
      else c # replace_from old new 0 cs)"

definition py_replace :: "string \<Rightarrow> string \<Rightarrow> string \<Rightarrow> string" where
  \<comment> \<open>\<open>s.replace(old, new)\<close> for a non-empty \<open>old\<close>: every occurrence, left to right\<close>
  "py_replace s old new = replace_from old new 0 s"

section \<open>Tables\<close>

text \<open>
  A pandas DataFrame is a list of column names and a list of rows. A cell is modelled by the
  text that \<open>astype(str)\<close> gives for it; a missing cell reads as \<open>nan\<close>. The types
  pandas gives to columns are not part of a table. The two places where they change the
  text of cells are parameters of the model, the record \<open>pandas\<close> below.
\<close>

type_synonym cell = string
type_synonym row = "cell list"

record dataframe =
  columns :: "string list"
  rows :: "row list"

datatype py_exc = KeyError string | ParserError | OSError

datatype csv_content = Unreadable | Table dataframe

text \<open>
  What pandas does to the text of cells. \<open>pd.concat\<close> unifies the types of the columns
  of its tables (an integer column beside a float one or a missing cell comes out as
  floats): \<open>upcast lib dfs i c t\<close> is the text after \<open>pd.concat(dfs)\<close> of the cell in row
  \<open>i\<close> and column \<open>c\<close> of the result whose text was \<open>t\<close>. \<open>to_csv\<close> writes the text of a
  table and \<open>pd.read_csv\<close> infers the types of the columns again (digits become
  integers, markers such as NA become missing cells): \<open>read_back lib df\<close> is what
  \<open>pd.read_csv\<close> gives for the file that \<open>df.to_csv\<close> wrote.
\<close>

record pandas =
  upcast :: "dataframe list \<Rightarrow> nat \<Rightarrow> string \<Rightarrow> cell \<Rightarrow> cell"
  read_back :: "dataframe \<Rightarrow> csv_content"

definition nan :: cell where
  "nan = ''nan''"

definition row_get :: "string list \<Rightarrow> row \<Rightarrow> string \<Rightarrow> cell" where
  "row_get cols r c = (case map_of (zip cols r) c of Some v \<Rightarrow> v | None \<Rightarrow> nan)"

definition col_values :: "dataframe \<Rightarrow> string \<Rightarrow> cell list" where
  "col_values df c = map (\<lambda>r. row_get (columns df) r c) (rows df)"

definition df_col :: "dataframe \<Rightarrow> string \<Rightarrow> py_exc + cell list" where
  \<comment> \<open>\<open>df[c].astype(str)\<close>\<close>
  "df_col df c = (if c \<in> set (columns df) then Inr (col_values df c) else Inl (KeyError c))"

definition df_where :: "dataframe \<Rightarrow> bool list \<Rightarrow> dataframe" where
  \<comment> \<open>\<open>df[mask]\<close>\<close>
  "df_where df sel = df\<lparr>rows := map fst (filter snd (zip (rows df) sel))\<rparr>"

definition reindex :: "dataframe \<Rightarrow> string list \<Rightarrow> row list" where
  "reindex df cols = map (\<lambda>r. map (row_get (columns df) r) cols) (rows df)"

definition df_project :: "dataframe \<Rightarrow> string list \<Rightarrow> py_exc + dataframe" where
  \<comment> \<open>\<open>df[cols]\<close>\<close>
  "df_project df cols =
     (case filter (\<lambda>c. c \<notin> set (columns df)) cols of
        [] \<Rightarrow> Inr \<lparr>columns = cols, rows = reindex df cols\<rparr>
      | c # _ \<Rightarrow> Inl (KeyError c))"

definition empty_df :: "string list \<Rightarrow> dataframe" where
  \<comment> \<open>\<open>pd.DataFrame(columns=cols)\<close>\<close>
  "empty_df cols = \<lparr>columns = cols, rows = []\<rparr>"

definition union_columns :: "string list \<Rightarrow> string list" where
  "union_columns cs = foldl (\<lambda>acc c. if c \<in> set acc then acc else acc @ [c]) [] cs"

definition retype :: "(nat \<Rightarrow> string \<Rightarrow> cell \<Rightarrow> cell) \<Rightarrow> string list \<Rightarrow> row list \<Rightarrow> row list" where
  "retype u cols rs = map (\<lambda>(i, r). map (\<lambda>(c, t). u i c t) (zip cols r)) (enumerate 0 rs)"

definition pd_concat :: "pandas \<Rightarrow> dataframe list \<Rightarrow> dataframe" where
  \<comment> \<open>\<open>pd.concat(dfs, ignore_index=True)\<close> of a non-empty list: the columns in order of first
      appearance, the rows of each table in turn; with more than one table the cells have
      the text that the unified column types give them\<close>
  "pd_concat lib dfs =
     (let cols = union_columns (concat (map columns dfs));
          rs = concat (map (\<lambda>d. reindex d cols) dfs)
      in \<lparr>columns = cols,
          rows = (if length dfs \<le> 1 then rs else retype (upcast lib dfs) cols rs)\<rparr>)"

section \<open>Files\<close>

record datetime =
  year :: nat
  month :: nat
  day :: nat
  hour :: nat
  minute :: nat
  second :: nat

record att_file =
  mtime :: datetime
  content :: csv_content

text \<open>
  The folders the program works on. \<open>data_folder\<close> is \<open>os.listdir(DATA_FOLDER)\<close> in listing
  order with what \<open>pd.read_csv\<close> gives for each entry (\<open>Unreadable\<close> when it raises), or
  \<open>None\<close> when the listing itself raises. \<open>attendance_folder\<close> holds the entries of
  \<open>ATTENDANCE_FOLDER\<close> by name, each with the time of its last write and what
  \<open>pd.read_csv\<close> gives for it. Writing and removing a file of the attendance folder are
  taken to succeed; a file written from a table then holds what \<open>read_back\<close> gives for
  that table. \<open>photos_folder\<close> lists the names in \<open>PHOTOS_FOLDER\<close>.
\<close>

record fs =
  data_folder :: "(string \<times> csv_content) list option"
  attendance_folder :: "(string \<times> att_file) list"
  photos_folder :: "string list"

fun write_file :: "(string \<times> 'a) list \<Rightarrow> string \<Rightarrow> 'a \<Rightarrow> (string \<times> 'a) list" where
  "write_file [] k v = [(k, v)]"
| "write_file ((k', v') # es) k v =
     (if k' = k then (k, v) # es else (k', v') # write_file es k v)"

definition remove_file :: "(string \<times> 'a) list \<Rightarrow> string \<Rightarrow> (string \<times> 'a) list" where
  "remove_file es k = filter (\<lambda>e. fst e \<noteq> k) es"

section \<open>Roster\<close>

definition CSV_COLUMNS :: "string list" where
  "CSV_COLUMNS = [''name'', ''phone_number'', ''photo'']"

datatype log_entry = Warning string | Error string

text \<open>
  The loop of \<open>load_csv_files\<close> over the listing: the tables it collects and the lines it
  logs (an error line without the text of its exception), both in listing order.
\<close>

fun scan_roster_files :: "(string \<times> csv_content) list \<Rightarrow> dataframe list \<times> log_entry list" where
  "scan_roster_files [] = ([], [])"
| "scan_roster_files ((file, c) # es) =
     (let (students, logs) = scan_roster_files es in
      if py_endswith file ''.csv'' \<and> py_startswith file ''students_'' then
        (case c of
           Unreadable \<Rightarrow> (students, Error (''Error reading '' @ file) # logs)
         | Table df \<Rightarrow>
             if list_all (\<lambda>col. col \<in> set (columns df)) CSV_COLUMNS then
               (case df_project df CSV_COLUMNS of
                  Inr p \<Rightarrow> (p # students, logs)
                | Inl e \<Rightarrow> (students, Error (''Error reading '' @ file) # logs))
             else
               (students, Warning (''Skipping '' @ file @ '': Missing required columns'') # logs))
      else (students, logs))"

text \<open>\<open>load_csv_files\<close> (app.py, lines 37 to 55).\<close>

definition load_csv_files :: "pandas \<Rightarrow> fs \<Rightarrow> dataframe" where
  "load_csv_files lib st =
     (case data_folder st of
        None \<Rightarrow> empty_df CSV_COLUMNS
      | Some es \<Rightarrow>
          (let students = fst (scan_roster_files es)
           in if students \<noteq> [] then pd_concat lib students else empty_df CSV_COLUMNS))"

definition load_csv_files_log :: "fs \<Rightarrow> log_entry list" where
  \<comment> \<open>what \<open>load_csv_files\<close> writes to the application log\<close>
  "load_csv_files_log st =
     (case data_folder st of
        None \<Rightarrow> [Error ''Error loading CSV files'']
      | Some es \<Rightarrow> snd (scan_roster_files es))"

text \<open>\<open>find_student\<close> (lines 58 to 69) returns the first matching row as a dictionary, or \<open>None\<close>.\<close>

record student =
  name :: string
  phone_number :: string
  photo :: string

definition to_dict :: "string list \<Rightarrow> row \<Rightarrow> student" where
  "to_dict cols r =
     \<lparr>name = row_get cols r ''name'', phone_number = row_get cols r ''phone_number'',
      photo = row_get cols r ''photo''\<rparr>"

definition phone_matches :: "string \<Rightarrow> bool \<Rightarrow> cell \<Rightarrow> bool" where
  "phone_matches ident partial v =
     (if partial then py_endswith v (last4 ident) else v = ident)"

definition find_student :: "pandas \<Rightarrow> fs \<Rightarrow> string \<Rightarrow> bool \<Rightarrow> student option" where
  "find_student lib st ident partial =
     (let df = load_csv_files lib st in
      case df_col df ''phone_number'' of
        Inl e \<Rightarrow> None
      | Inr phones \<Rightarrow>
          (case rows (df_where df (map (phone_matches ident partial) phones)) of
             [] \<Rightarrow> None
           | r # _ \<Rightarrow> Some (to_dict (columns df) r)))"

section \<open>Session records\<close>

definition ATTENDANCE_COLUMNS :: "string list" where
  "ATTENDANCE_COLUMNS = [''name'', ''phone_number'', ''status'', ''timestamp'']"

definition attendance_file :: "string \<Rightarrow> string \<Rightarrow> string" where
  "attendance_file course_id session_id =
     ''attendance_course_'' @ course_id @ ''_session_'' @ session_id @ ''.csv''"

text \<open>\<open>load_attendance\<close> (lines 72 to 80).\<close>

definition load_attendance :: "fs \<Rightarrow> string \<Rightarrow> string \<Rightarrow> dataframe" where
  "load_attendance st course_id session_id =
     (case map_of (attendance_folder st) (attendance_file course_id session_id) of
        None \<Rightarrow> empty_df ATTENDANCE_COLUMNS
      | Some f \<Rightarrow>
          (case content f of
             Unreadable \<Rightarrow> empty_df ATTENDANCE_COLUMNS
           | Table df \<Rightarrow> df))"

text \<open>The timestamp of \<open>save_attendance\<close> (line 93).\<close>

definition digit_char :: "nat \<Rightarrow> char" where
  "digit_char n = ''0123456789'' ! (n mod 10)"

definition pad2 :: "nat \<Rightarrow> string" where
  "pad2 n = [digit_char (n div 10), digit_char n]"

definition pad4 :: "nat \<Rightarrow> string" where
  "pad4 n = [digit_char (n div 1000), digit_char (n div 100), digit_char (n div 10), digit_char n]"

definition strftime :: "datetime \<Rightarrow> string" where
  \<comment> \<open>\<open>strftime("%Y-%m-%d %H:%M:%S")\<close> of a date of the years 1000 to 9999\<close>
  "strftime d =
     pad4 (year d) @ ''-'' @ pad2 (month d) @ ''-'' @ pad2 (day d) @ '' '' @
     pad2 (hour d) @ '':'' @ pad2 (minute d) @ '':'' @ pad2 (second d)"

definition new_entry :: "student \<Rightarrow> string \<Rightarrow> datetime \<Rightarrow> dataframe" where
  \<comment> \<open>\<open>pd.DataFrame([new_entry])\<close>\<close>
  "new_entry stu status now =
     \<lparr>columns = ATTENDANCE_COLUMNS,
      rows = [[name stu, phone_number stu, status, strftime now]]\<rparr>"

datatype save_result = Saved | DuplicateEntry | SaveError py_exc

text \<open>
  \<open>save_attendance\<close> (lines 83 to 101) returns \<open>(True, "Attendance recorded successfully")\<close>, here \<open>Saved\<close>,
  \<open>(False, "Duplicate attendance entry for this student")\<close>, here \<open>DuplicateEntry\<close>, or
  \<open>(False, str(e))\<close> for an exception \<open>e\<close>, here \<open>SaveError e\<close>. The clock is a parameter.
\<close>

definition save_attendance ::
  "pandas \<Rightarrow> fs \<Rightarrow> student \<Rightarrow> string \<Rightarrow> string \<Rightarrow> string \<Rightarrow> datetime \<Rightarrow> save_result \<times> fs" where
  "save_attendance lib st stu status course_id session_id now =
     (let attendance = load_attendance st course_id session_id in
      case df_col attendance ''phone_number'' of
        Inl e \<Rightarrow> (SaveError e, st)
      | Inr phones \<Rightarrow>
          if phone_number stu \<in> set phones then (DuplicateEntry, st)
          else
            (let attendance' = pd_concat lib [attendance, new_entry stu status now]
             in (Saved,
                 st\<lparr>attendance_folder :=
                      write_file (attendance_folder st) (attendance_file course_id session_id)
                        \<lparr>mtime = now, content = read_back lib attendance'\<rparr>\<rparr>)))"

section \<open>History\<close>

text \<open>\<open>get_attendance_history\<close> (lines 104 to 120).\<close>

record history_entry =
  session :: string
  status :: string
  timestamp :: string

definition read_csv :: "(string \<times> att_file) list \<Rightarrow> string \<Rightarrow> py_exc + dataframe" where
  "read_csv folder file =
     (case map_of folder file of
        None \<Rightarrow> Inl OSError
      | Some f \<Rightarrow> (case content f of Unreadable \<Rightarrow> Inl ParserError | Table df \<Rightarrow> Inr df))"

definition row_item :: "string list \<Rightarrow> row \<Rightarrow> string \<Rightarrow> py_exc + cell" where
  \<comment> \<open>\<open>df.iloc[i][c]\<close>\<close>
  "row_item cols r c = (if c \<in> set cols then Inr (row_get cols r c) else Inl (KeyError c))"

definition session_label :: "string \<Rightarrow> string" where
  "session_label file = py_replace (py_replace file ''attendance_'' []) ''.csv'' []"

text \<open>
  The loop of \<open>get_attendance_history\<close>: an exception at any file leaves the loop, and the
  handler around it returns the empty list.
\<close>

fun scan_history ::
  "(string \<times> att_file) list \<Rightarrow> string \<Rightarrow> string list \<Rightarrow> py_exc + history_entry list" where
  "scan_history folder phone [] = Inr []"
| "scan_history folder phone (file # files) =
     (if py_endswith file ''.csv'' then
        (case read_csv folder file of
           Inl e \<Rightarrow> Inl e
         | Inr df \<Rightarrow>
             (case df_col df ''phone_number'' of
                Inl e \<Rightarrow> Inl e
              | Inr phones \<Rightarrow>
                  (case rows (df_where df (map (\<lambda>v. v = phone) phones)) of
                     [] \<Rightarrow> scan_history folder phone files
                   | r # _ \<Rightarrow>
                       (case row_item (columns df) r ''status'' of
                          Inl e \<Rightarrow> Inl e
                        | Inr st \<Rightarrow>
                            (case row_item (columns df) r ''timestamp'' of
                               Inl e \<Rightarrow> Inl e
                             | Inr ts \<Rightarrow>
                                 (case scan_history folder phone files of
                                    Inl e \<Rightarrow> Inl e
                                  | Inr h \<Rightarrow>
                                      Inr (\<lparr>session = session_label file, status = st,
                                            timestamp = ts\<rparr> # h)))))))
      else scan_history folder phone files)"

definition history_window :: "fs \<Rightarrow> string list" where
  \<comment> \<open>\<open>sorted(os.listdir(ATTENDANCE_FOLDER), reverse=True)[:5]\<close>\<close>
  "history_window st = take 5 (rev (sort (map fst (attendance_folder st))))"

definition get_attendance_history :: "fs \<Rightarrow> string \<Rightarrow> history_entry list" where
  "get_attendance_history st phone =
     (case scan_history (attendance_folder st) phone (history_window st) of
        Inl e \<Rightarrow> []
      | Inr h \<Rightarrow> h)"

section \<open>Requests\<close>

text \<open>
  What a route answers: the JSON of a found student with the history (the photo's bytes are
  left out), a JSON message, a JSON error with its text or with the exception it prints, a
  redirect to the attendance list.
\<close>

datatype response =
    JsonStudent student "history_entry list"
  | JsonMessage string
  | JsonError string
  | JsonException py_exc
  | Redirect

text \<open>\<open>search_student\<close> (lines 230 to 256) and \<open>update_attendance\<close> (lines 261 to 279).\<close>

definition search_student :: "pandas \<Rightarrow> fs \<Rightarrow> string option \<Rightarrow> response" where
  "search_student lib st phone_digits =
     (case phone_digits of
        None \<Rightarrow> JsonError ''At least 4 digits required''
      | Some d \<Rightarrow>
          if d \<noteq> [] \<and> length d \<ge> 4 \<and> py_isdigit d then
            (case find_student lib st d True of
               Some stu \<Rightarrow>
                 if photo stu \<in> set (photos_folder st)
                 then JsonStudent stu (get_attendance_history st (phone_number stu))
                 else JsonError (''Photo not found at '' @ photo stu)
             | None \<Rightarrow> JsonError ''Student not found'')
          else JsonError ''At least 4 digits required'')"

definition update_attendance ::
  "pandas \<Rightarrow> fs \<Rightarrow> string \<Rightarrow> string \<Rightarrow> string \<Rightarrow> string \<Rightarrow> datetime \<Rightarrow> response \<times> fs" where
  "update_attendance lib st phone stat course_id session_id now =
     (case find_student lib st phone False of
        Some stu \<Rightarrow>
          (case save_attendance lib st stu stat course_id session_id now of
             (Saved, st') \<Rightarrow> (JsonMessage ''Attendance recorded successfully'', st')
           | (DuplicateEntry, st') \<Rightarrow>
               (JsonError ''Duplicate attendance entry for this student'', st')
           | (SaveError e, st') \<Rightarrow> (JsonException e, st'))
      | None \<Rightarrow> (JsonError ''Student not found'', st))"

record views =
  present_students :: dataframe
  rejected_students :: dataframe
  exited_students :: dataframe
  absent_students :: dataframe

text \<open>
  \<open>attendance_list\<close> (lines 284 to 306) gives the four tables to the template (their \<open>to_dict\<close> conversion is
  left out), or the error page for an exception.
\<close>

definition attendance_list :: "pandas \<Rightarrow> fs \<Rightarrow> string \<Rightarrow> string \<Rightarrow> py_exc + views" where
  "attendance_list lib st course_id session_id =
     (let attendance = load_attendance st course_id session_id in
      case df_col attendance ''status'' of
        Inl e \<Rightarrow> Inl e
      | Inr statuses \<Rightarrow>
          (let present = df_where attendance (map (\<lambda>v. v = ''entry'') statuses);
               rejected = df_where attendance (map (\<lambda>v. v = ''reject'') statuses);
               exited = df_where attendance (map (\<lambda>v. v = ''exit'') statuses);
               all_students = load_csv_files lib st
           in case df_col present ''phone_number'' of
                Inl e \<Rightarrow> Inl e
              | Inr present_phones \<Rightarrow>
                  (case df_col all_students ''phone_number'' of
                     Inl e \<Rightarrow> Inl e
                   | Inr phones \<Rightarrow>
                       Inr \<lparr>present_students = present, rejected_students = rejected,
                            exited_students = exited,
                            absent_students =
                              df_where all_students
                                (map (\<lambda>v. v \<notin> set present_phones) phones)\<rparr>)))"

text \<open>\<open>download_absent\<close> (lines 377 to 397) gives the exported table.\<close>

definition download_absent :: "pandas \<Rightarrow> fs \<Rightarrow> string \<Rightarrow> string \<Rightarrow> py_exc + dataframe" where
  "download_absent lib st course_id session_id =
     (let all_students = load_csv_files lib st;
          attendance = load_attendance st course_id session_id
      in case df_col attendance ''status'' of
           Inl e \<Rightarrow> Inl e
         | Inr statuses \<Rightarrow>
             (case df_col (df_where attendance (map (\<lambda>v. v = ''entry'') statuses))
                     ''phone_number'' of
                Inl e \<Rightarrow> Inl e
              | Inr present_phones \<Rightarrow>
                  (case df_col all_students ''phone_number'' of
                     Inl e \<Rightarrow> Inl e
                   | Inr phones \<Rightarrow>
                       df_project
                         (df_where all_students (map (\<lambda>v. v \<notin> set present_phones) phones))
                         [''name'', ''phone_number''])))"

text \<open>\<open>reset_attendance\<close> (lines 417 to 428).\<close>

definition reset_attendance :: "fs \<Rightarrow> string \<Rightarrow> string \<Rightarrow> response \<times> fs" where
  "reset_attendance st course_id session_id =
     (let file = attendance_file course_id session_id in
      if map_of (attendance_folder st) file \<noteq> None
      then (Redirect, st\<lparr>attendance_folder := remove_file (attendance_folder st) file\<rparr>)
      else (Redirect, st))"

section \<open>Notions of the specification\<close>

text \<open>The identifiers of a table: its \<open>phone_number\<close> cells, row by row.\<close>

definition view_ids :: "dataframe \<Rightarrow> cell list" where
  "view_ids df = col_values df ''phone_number''"

text \<open>The timestamp format \<open>YYYY-MM-DD HH:MM:SS\<close>: a \<open>d\<close> of the pattern stands for a decimal digit.\<close>

definition is_decimal :: "char \<Rightarrow> bool" where
  "is_decimal c = (c \<in> set ''0123456789'')"

definition matches_pattern :: "string \<Rightarrow> string \<Rightarrow> bool" where
  "matches_pattern s pat =
     list_all2 (\<lambda>c p. if p = CHR ''d'' then is_decimal c else c = p) s pat"

definition timestamp_pattern :: string where
  "timestamp_pattern = ''dddd-dd-dd dd:dd:dd''"

text \<open>
  The session record sets by modification time, the most recently modified first, and the
  five most recent of them: the window the specification gives to the history. The key
  orders the dates whose month, day, hour, minute and second are in their calendar ranges.
\<close>

definition mtime_key :: "datetime \<Rightarrow> nat" where
  "mtime_key d =
     second d + 60 * (minute d + 60 * (hour d + 24 * (day d + 32 * (month d + 13 * year d))))"

definition most_recent_sessions :: "fs \<Rightarrow> string list" where
  "most_recent_sessions st =
     take 5 (rev (map fst (sort_key (\<lambda>e. mtime_key (mtime (snd e)))
       (filter (\<lambda>e. py_endswith (fst e) ''.csv'') (attendance_folder st)))))"

text \<open>
  What one file of the history window holds for an identifier: its rows with that
  identifier, the entry built from the first of them, and whether reading it raises.
\<close>

definition matching_rows :: "(string \<times> att_file) list \<Rightarrow> string \<Rightarrow> string \<Rightarrow> row list" where
  "matching_rows folder phone file =
     (case read_csv folder file of
        Inl e \<Rightarrow> []
      | Inr df \<Rightarrow> filter (\<lambda>r. row_get (columns df) r ''phone_number'' = phone) (rows df))"

definition contributes :: "(string \<times> att_file) list \<Rightarrow> string \<Rightarrow> string \<Rightarrow> bool" where
  "contributes folder phone file =
     (py_endswith file ''.csv'' \<and> matching_rows folder phone file \<noteq> [])"

definition entry_of :: "(string \<times> att_file) list \<Rightarrow> string \<Rightarrow> string \<Rightarrow> history_entry" where
  "entry_of folder phone file =
     (case (read_csv folder file, matching_rows folder phone file) of
        (Inr df, r # _) \<Rightarrow>
          \<lparr>session = session_label file, status = row_get (columns df) r ''status'',
           timestamp = row_get (columns df) r ''timestamp''\<rparr>
      | _ \<Rightarrow> \<lparr>session = session_label file, status = nan, timestamp = nan\<rparr>)"

definition file_raises :: "(string \<times> att_file) list \<Rightarrow> string \<Rightarrow> string \<Rightarrow> bool" where
  "file_raises folder phone file =
     (py_endswith file ''.csv'' \<and>
      (case read_csv folder file of
         Inl e \<Rightarrow> True
       | Inr df \<Rightarrow>
           ''phone_number'' \<notin> set (columns df) \<or>
           (matching_rows folder phone file \<noteq> [] \<and>
            (''status'' \<notin> set (columns df) \<or> ''timestamp'' \<notin> set (columns df)))))"

text \<open>
  The roster files by name, and the rows one directory entry gives to the roster: those
  of a readable roster file that has the three required columns, under these columns.
\<close>

definition is_roster_file :: "string \<Rightarrow> bool" where
  "is_roster_file file = (py_endswith file ''.csv'' \<and> py_startswith file ''students_'')"

definition has_required_columns :: "dataframe \<Rightarrow> bool" where
  "has_required_columns df = (set CSV_COLUMNS \<subseteq> set (columns df))"

definition valid_roster_entry :: "string \<times> csv_content \<Rightarrow> bool" where
  "valid_roster_entry e =
     (case snd e of
        Unreadable \<Rightarrow> False
      | Table df \<Rightarrow> is_roster_file (fst e) \<and> has_required_columns df)"

definition roster_rows :: "string \<times> csv_content \<Rightarrow> row list" where
  "roster_rows e =
     (case snd e of
        Unreadable \<Rightarrow> []
      | Table df \<Rightarrow> if valid_roster_entry e then reindex df CSV_COLUMNS else [])"

definition roster_frames :: "(string \<times> csv_content) list \<Rightarrow> dataframe list" where
  \<comment> \<open>the tables of the valid files, in listing order, as they go into \<open>pd.concat\<close>\<close>
  "roster_frames es =
     map (\<lambda>e. \<lparr>columns = CSV_COLUMNS, rows = roster_rows e\<rparr>) (filter valid_roster_entry es)"

definition skipped_with_warning :: "string \<times> csv_content \<Rightarrow> bool" where
  "skipped_with_warning e =
     (case snd e of
        Unreadable \<Rightarrow> False
      | Table df \<Rightarrow> is_roster_file (fst e) \<and> \<not> has_required_columns df)"

section \<open>Example states\<close>

text \<open>
  Two behaviours of pandas for the examples. With \<open>pandas_plain\<close> the text of every cell
  stays as it is in \<open>pd.concat\<close> and on reading a written file back; this is what pandas
  does with the names, file names, statuses, timestamps and phone numbers without a
  leading zero of the examples that use it. With \<open>pandas_digits\<close> reading a written file
  back gives the cells of a column that holds nothing but strings of digits as integers,
  without their leading zeros, as the type inference of \<open>pd.read_csv\<close> does for integers
  below \<open>2 ^ 63\<close>, and leaves the other columns as they are, which is what pandas does
  with the names, statuses, timestamps and the phone with a hyphen of the examples that
  use it.
\<close>

definition pandas_plain :: pandas where
  "pandas_plain = \<lparr>upcast = (\<lambda>dfs i c t. t), read_back = Table\<rparr>"

definition is_digits :: "string \<Rightarrow> bool" where
  "is_digits s = (s \<noteq> [] \<and> list_all is_decimal s)"

definition strip_zeros :: "string \<Rightarrow> string" where
  "strip_zeros s = (case dropWhile (\<lambda>c. c = CHR ''0'') s of [] \<Rightarrow> ''0'' | t \<Rightarrow> t)"

definition digits_as_integers :: "dataframe \<Rightarrow> dataframe" where
  "digits_as_integers df =
     df\<lparr>rows :=
        map (\<lambda>r. map (\<lambda>c. if list_all is_digits (col_values df c)
                            then strip_zeros (row_get (columns df) r c)
                            else row_get (columns df) r c) (columns df)) (rows df)\<rparr>"

definition pandas_digits :: pandas where
  "pandas_digits =
     \<lparr>upcast = (\<lambda>dfs i c t. t), read_back = (\<lambda>df. Table (digits_as_integers df))\<rparr>"

text \<open>
  The roster of the specification's end-to-end example, a data folder that holds it as one
  roster file, and an empty attendance folder.
\<close>

definition ex_roster :: dataframe where
  "ex_roster =
     \<lparr>columns = [''name'', ''phone_number'', ''photo''],
      rows = [[''Alice'', ''5551234'', ''a.jpg''], [''Bob'', ''5555678'', ''b.jpg'']]\<rparr>"

definition ex_fs :: fs where
  "ex_fs =
     \<lparr>data_folder = Some [(''students_1.csv'', Table ex_roster)],
      attendance_folder = [],
      photos_folder = [''a.jpg'', ''b.jpg'']\<rparr>"

definition ex_alice :: student where
  "ex_alice = \<lparr>name = ''Alice'', phone_number = ''5551234'', photo = ''a.jpg''\<rparr>"

definition ex_bob :: student where
  "ex_bob = \<lparr>name = ''Bob'', phone_number = ''5555678'', photo = ''b.jpg''\<rparr>"

definition ex_time :: "nat \<Rightarrow> datetime" where
  "ex_time d = \<lparr>year = 2024, month = 3, day = d, hour = 9, minute = 0, second = 0\<rparr>"

text \<open>A sequence of attendance requests for course 1, one per (identifier, status, session, day).\<close>

definition record_all :: "pandas \<Rightarrow> fs \<Rightarrow> (string \<times> string \<times> string \<times> nat) list \<Rightarrow> fs" where
  "record_all lib st reqs =
     fold (\<lambda>(phone, stat, session_id, d) st.
             snd (update_attendance lib st phone stat ''1'' session_id (ex_time d))) reqs st"

text \<open>Sessions 5 to 10 held on six days in a row; Alice attends the first and the last.\<close>

definition ex_six_sessions :: fs where
  "ex_six_sessions =
     record_all pandas_plain ex_fs
       [(''5551234'', ''entry'', ''5'', 1), (''5555678'', ''entry'', ''6'', 2),
        (''5555678'', ''entry'', ''7'', 3), (''5555678'', ''entry'', ''8'', 4),
        (''5555678'', ''entry'', ''9'', 5), (''5551234'', ''entry'', ''10'', 6)]"

text \<open>A roster table with its columns in another order, and one column more.\<close>

definition ex_reordered :: dataframe where
  "ex_reordered =
     \<lparr>columns = [''photo'', ''name'', ''phone_number'', ''group''],
      rows = [[''d.jpg'', ''Dan'', ''5559999'', ''x'']]\<rparr>"

text \<open>
  A data folder with a roster file in another column order, one without the photo column,
  one that cannot be read, and a file that is not a roster file.
\<close>

definition ex_mixed_folder :: "(string \<times> csv_content) list" where
  "ex_mixed_folder =
     [(''students_b.csv'', Table ex_roster),
      (''students_bad.csv'',
         Table \<lparr>columns = [''name'', ''phone_number''], rows = [[''Carol'', ''5550000'']]\<rparr>),
      (''notes.txt'', Unreadable),
      (''students_c.csv'', Unreadable),
      (''students_a.csv'', Table ex_reordered)]"

definition ex_mixed_fs :: fs where
  "ex_mixed_fs = \<lparr>data_folder = Some ex_mixed_folder, attendance_folder = [], photos_folder = []\<rparr>"

text \<open>A roster in which two phone numbers end with the same four digits.\<close>

definition ex_twins_fs :: fs where
  "ex_twins_fs =
     \<lparr>data_folder = Some [(''students_1.csv'', Table
         \<lparr>columns = [''name'', ''phone_number'', ''photo''],
          rows = [[''Alice'', ''5551234'', ''a.jpg''], [''Bob'', ''5555678'', ''b.jpg''],
                  [''Eve'', ''7771234'', ''e.jpg'']]\<rparr>)],
      attendance_folder = [],
      photos_folder = [''a.jpg'']\<rparr>"

text \<open>Session 1 of course 1 after Alice was let in and Bob was rejected.\<close>

definition ex_two_records :: fs where
  "ex_two_records =
     record_all pandas_plain ex_fs
       [(''5551234'', ''entry'', ''1'', 1), (''5555678'', ''reject'', ''1'', 2)]"

definition ex_views :: views where
  "ex_views =
     \<lparr>present_students =
        \<lparr>columns = [''name'', ''phone_number'', ''status'', ''timestamp''],
         rows = [[''Alice'', ''5551234'', ''entry'', ''2024-03-01 09:00:00'']]\<rparr>,
      rejected_students =
        \<lparr>columns = [''name'', ''phone_number'', ''status'', ''timestamp''],
         rows = [[''Bob'', ''5555678'', ''reject'', ''2024-03-02 09:00:00'']]\<rparr>,
      exited_students =
        \<lparr>columns = [''name'', ''phone_number'', ''status'', ''timestamp''], rows = []\<rparr>,
      absent_students =
        \<lparr>columns = [''name'', ''phone_number'', ''photo''],
         rows = [[''Bob'', ''5555678'', ''b.jpg'']]\<rparr>\<rparr>"

text \<open>
  A roster whose phone column pandas reads as text, since one phone has a hyphen: the
  leading zero of Zed's phone is part of it.
\<close>

definition ex_zed_roster :: dataframe where
  "ex_zed_roster =
     \<lparr>columns = [''name'', ''phone_number'', ''photo''],
      rows = [[''Zed'', ''0551234'', ''z.jpg''], [''Yan'', ''555-1234'', ''y.jpg'']]\<rparr>"

definition ex_zed_fs :: fs where
  "ex_zed_fs =
     \<lparr>data_folder = Some [(''students_1.csv'', Table ex_zed_roster)],
      attendance_folder = [],
      photos_folder = [''z.jpg'', ''y.jpg'']\<rparr>"

definition ex_zed :: student where
  "ex_zed = \<lparr>name = ''Zed'', phone_number = ''0551234'', photo = ''z.jpg''\<rparr>"

definition ex_yan :: student where
  "ex_yan = \<lparr>name = ''Yan'', phone_number = ''555-1234'', photo = ''y.jpg''\<rparr>"

text \<open>The state after Zed's entry to session 1 of course 1 was recorded.\<close>

definition ex_zed_recorded :: fs where
  "ex_zed_recorded = record_all pandas_digits ex_zed_fs [(''0551234'', ''entry'', ''1'', 1)]"

text \<open>A state with the session file of course 1, session 1, and one of session 2.\<close>

definition ex_two_files :: fs where
  "ex_two_files =
     record_all pandas_plain ex_fs
       [(''5551234'', ''entry'', ''1'', 1), (''5555678'', ''entry'', ''2'', 2)]"

text \<open>A data folder whose only roster file is that table.\<close>

definition ex_reordered_fs :: fs where
  "ex_reordered_fs =
     \<lparr>data_folder = Some [(''students_a.csv'', Table ex_reordered)],
      attendance_folder = [], photos_folder = []\<rparr>"

section \<open>Tables, files and appends: basic facts\<close>

lemma df_col_Inr_iff: "df_col df c = Inr vs \<longleftrightarrow> c \<in> set (columns df) \<and> vs = col_values df c"
  by (auto simp: df_col_def)

lemma df_col_Inl_iff: "df_col df c = Inl e \<longleftrightarrow> c \<notin> set (columns df) \<and> e = KeyError c"
  by (auto simp: df_col_def)

lemma filter_zip_map: "map fst (filter snd (zip xs (map f xs))) = filter f xs"
  by (induction xs) auto

lemma rows_df_where:
  "rows (df_where df (map P (col_values df c))) = filter (\<lambda>r. P (row_get (columns df) r c)) (rows df)"
proof -
  have "map P (col_values df c) = map (\<lambda>r. P (row_get (columns df) r c)) (rows df)"
    by (simp add: col_values_def)
  then show ?thesis
    by (simp add: df_where_def filter_zip_map)
qed

lemma columns_df_where: "columns (df_where df sel) = columns df"
  by (simp add: df_where_def)

lemma row_get_notin: "c \<notin> set cols \<Longrightarrow> row_get cols r c = nan"
proof -
  assume "c \<notin> set cols"
  then have "c \<notin> fst ` set (zip cols r)"
    by (auto dest: set_zip_leftD)
  then have "map_of (zip cols r) c = None"
    by (simp add: map_of_eq_None_iff)
  then show ?thesis
    by (simp add: row_get_def)
qed

lemma row_get_map: "c \<in> set cols \<Longrightarrow> row_get cols (map f cols) c = f c"
  by (simp add: row_get_def map_of_zip_map)

lemma set_union_columns_aux:
  "set (foldl (\<lambda>acc c. if c \<in> set acc then acc else acc @ [c]) acc cs) = set acc \<union> set cs"
  by (induction cs arbitrary: acc) auto

lemma set_union_columns: "set (union_columns cs) = set cs"
  by (simp add: union_columns_def set_union_columns_aux)

lemma col_values_reindex:
  assumes "set (columns d) \<subseteq> set cols"
  shows "map (\<lambda>r. row_get cols r c) (reindex d cols) = col_values d c"
proof (cases "c \<in> set cols")
  case True
  then show ?thesis
    by (simp add: reindex_def col_values_def row_get_map comp_def)
next
  case False
  with assms have "c \<notin> set (columns d)" by auto
  with False show ?thesis
    by (simp add: reindex_def col_values_def row_get_notin comp_def)
qed

lemma map_of_zip_retyped:
  "length r = length cols \<Longrightarrow>
   map_of (zip cols (map (\<lambda>(c, t). f c t) (zip cols r))) c =
     map_option (f c) (map_of (zip cols r) c)"
  by (induction r cols rule: list_induct2) auto

lemma row_get_retyped:
  assumes "length r = length cols" and "\<And>t. f c t = t"
  shows "row_get cols (map (\<lambda>(c, t). f c t) (zip cols r)) c = row_get cols r c"
  by (simp add: row_get_def map_of_zip_retyped[OF assms(1)] assms(2) split: option.splits)

lemma length_retype: "length (retype u cols rs) = length rs"
  by (simp add: retype_def)

lemma col_values_retype_aux:
  assumes "\<forall>r\<in>set rs. length r = length cols" and "\<And>i t. u i c t = t"
  shows "map (\<lambda>r. row_get cols r c) (map (\<lambda>(i, r). map (\<lambda>(c, t). u i c t) (zip cols r)) (enumerate n rs)) =
         map (\<lambda>r. row_get cols r c) rs"
  using assms(1)
proof (induction rs arbitrary: n)
  case Nil
  show ?case by simp
next
  case (Cons r rs)
  then have "length r = length cols" by simp
  then have "row_get cols (map (\<lambda>(c, t). u n c t) (zip cols r)) c = row_get cols r c"
    by (rule row_get_retyped[where f="u n"]) (rule assms(2))
  with Cons show ?case
    by simp
qed

lemma col_values_retype:
  assumes "\<forall>r\<in>set rs. length r = length cols" and "\<And>i t. u i c t = t"
  shows "map (\<lambda>r. row_get cols r c) (retype u cols rs) = map (\<lambda>r. row_get cols r c) rs"
  unfolding retype_def
  by (rule col_values_retype_aux[where u=u and c=c, OF assms(1)]) (rule assms(2))

lemma retype_plain:
  assumes "\<forall>r\<in>set rs. length r = length cols" and "\<And>i c t. u i c t = t"
  shows "retype u cols rs = rs"
proof -
  have "map (\<lambda>(i, r). map (\<lambda>(c, t). u i c t) (zip cols r)) (enumerate n rs) = rs" for n
    using assms(1)
  proof (induction rs arbitrary: n)
    case Nil
    show ?case by simp
  next
    case (Cons r rs)
    then have "length cols = length r" by simp
    then have "map (\<lambda>(c, t). u n c t) (zip cols r) = r"
      by (induction cols r rule: list_induct2) (simp_all add: assms(2))
    with Cons show ?case by simp
  qed
  then show ?thesis
    by (simp add: retype_def)
qed

lemma length_reindexed: "\<forall>r\<in>set (concat (map (\<lambda>d. reindex d cols) dfs)). length r = length cols"
  by (auto simp: reindex_def)

lemma columns_pd_concat_eq: "columns (pd_concat lib dfs) = union_columns (concat (map columns dfs))"
  by (simp add: pd_concat_def Let_def)

lemma columns_pd_concat: "set (columns (pd_concat lib dfs)) = (\<Union>d \<in> set dfs. set (columns d))"
  by (simp add: pd_concat_def Let_def set_union_columns)

lemma length_rows_pd_concat: "length (rows (pd_concat lib dfs)) = length (concat (map rows dfs))"
  by (simp add: pd_concat_def Let_def length_retype length_concat reindex_def comp_def)

lemma col_values_pd_concat:
  assumes "\<And>i t. upcast lib dfs i c t = t"
  shows "col_values (pd_concat lib dfs) c = concat (map (\<lambda>d. col_values d c) dfs)"
proof -
  let ?cols = "union_columns (concat (map columns dfs))"
  let ?rs = "concat (map (\<lambda>d. reindex d ?cols) dfs)"
  have sub: "set (columns d) \<subseteq> set ?cols" if "d \<in> set dfs" for d
    using that by (auto simp: set_union_columns)
  have "col_values (pd_concat lib dfs) c = map (\<lambda>r. row_get ?cols r c) ?rs"
    using col_values_retype[where u="upcast lib dfs" and c=c and cols="?cols" and rs="?rs",
        OF length_reindexed] assms
    by (simp add: pd_concat_def col_values_def Let_def)
  also have "\<dots> = concat (map (\<lambda>d. map (\<lambda>r. row_get ?cols r c) (reindex d ?cols)) dfs)"
    by (simp add: map_concat comp_def)
  also have "\<dots> = concat (map (\<lambda>d. col_values d c) dfs)"
    using sub by (intro arg_cong[where f=concat] map_cong refl col_values_reindex)
  finally show ?thesis .
qed

lemma map_of_write_file:
  "map_of (write_file es k v) k' = (if k' = k then Some v else map_of es k')"
  by (induction es k v rule: write_file.induct) auto

lemma map_of_remove_file:
  "map_of (remove_file es k) k' = (if k' = k then None else map_of es k')"
  by (induction es) (auto simp: remove_file_def)

lemma col_values_new_entry:
  "col_values (new_entry stu stat now) k =
     [row_get ATTENDANCE_COLUMNS [name stu, phone_number stu, stat, strftime now] k]"
  by (simp add: col_values_def new_entry_def)

lemma row_get_new_entry:
  "row_get ATTENDANCE_COLUMNS [a, b, c, d] ''name'' = a"
  "row_get ATTENDANCE_COLUMNS [a, b, c, d] ''phone_number'' = b"
  "row_get ATTENDANCE_COLUMNS [a, b, c, d] ''status'' = c"
  "row_get ATTENDANCE_COLUMNS [a, b, c, d] ''timestamp'' = d"
  by (simp_all add: row_get_def ATTENDANCE_COLUMNS_def)

lemma save_attendance_fresh:
  assumes "''phone_number'' \<in> set (columns (load_attendance st c s))"
      and "phone_number stu \<notin> set (col_values (load_attendance st c s) ''phone_number'')"
  shows "save_attendance lib st stu stat c s now =
     (Saved, st\<lparr>attendance_folder :=
            write_file (attendance_folder st) (attendance_file c s)
              \<lparr>mtime = now,
               content = read_back lib
                 (pd_concat lib [load_attendance st c s, new_entry stu stat now])\<rparr>\<rparr>)"
  using assms by (simp add: save_attendance_def Let_def df_col_def)

lemma foldl_union_known:
  "set xs \<subseteq> set acc \<Longrightarrow> foldl (\<lambda>acc c. if c \<in> set acc then acc else acc @ [c]) acc xs = acc"
  by (induction xs arbitrary: acc) auto

lemma foldl_union_fresh:
  "distinct xs \<Longrightarrow> set xs \<inter> set acc = {} \<Longrightarrow>
   foldl (\<lambda>acc c. if c \<in> set acc then acc else acc @ [c]) acc xs = acc @ xs"
  by (induction xs arbitrary: acc) auto

lemma union_columns_same:
  assumes "distinct C" and "ds \<noteq> []" and "\<forall>d\<in>set ds. columns d = C"
  shows "union_columns (concat (map columns ds)) = C"
proof -
  from assms(2) obtain d ds' where ds: "ds = d # ds'"
    by (cases ds) auto
  with assms(3) have hd: "columns d = C" and tl: "set (concat (map columns ds')) \<subseteq> set C"
    by auto
  have "foldl (\<lambda>acc c. if c \<in> set acc then acc else acc @ [c]) [] C = C"
    using foldl_union_fresh[OF assms(1), of "[]"] by simp
  then show ?thesis
    using tl by (simp add: union_columns_def ds hd foldl_union_known)
qed

lemma distinct_CSV_COLUMNS: "distinct CSV_COLUMNS"
  by (simp add: CSV_COLUMNS_def)

lemma df_project_required:
  assumes "has_required_columns df"
  shows "df_project df CSV_COLUMNS = Inr \<lparr>columns = CSV_COLUMNS, rows = reindex df CSV_COLUMNS\<rparr>"
proof -
  have "filter (\<lambda>c. c \<notin> set (columns df)) CSV_COLUMNS = []"
    using assms by (auto simp: has_required_columns_def filter_empty_conv)
  then show ?thesis
    by (simp add: df_project_def)
qed

lemma list_all_required: "list_all (\<lambda>col. col \<in> set (columns df)) CSV_COLUMNS = has_required_columns df"
  by (auto simp: has_required_columns_def list_all_iff)

lemma scan_roster_files_students: "fst (scan_roster_files es) = roster_frames es"
  unfolding roster_frames_def
proof (induction es)
  case Nil
  show ?case by simp
next
  case (Cons e es)
  obtain fl c where e: "e = (fl, c)" by (cases e)
  show ?case
  proof (cases c)
    case Unreadable
    with Cons e show ?thesis
      by (auto simp: valid_roster_entry_def split: prod.splits)
  next
    case (Table df)
    with Cons e show ?thesis
      by (auto simp: valid_roster_entry_def roster_rows_def is_roster_file_def
          list_all_required df_project_required split: prod.splits)
  qed
qed

lemma scan_roster_files_warnings:
  assumes "e \<in> set es" and "skipped_with_warning e"
  shows "Warning (''Skipping '' @ fst e @ '': Missing required columns'') \<in> set (snd (scan_roster_files es))"
  using assms
proof (induction es)
  case Nil
  then show ?case by simp
next
  case (Cons x es)
  obtain fl c where x: "x = (fl, c)" by (cases x)
  show ?case
  proof (cases "e = x")
    case True
    with Cons.prems(2) x obtain df where "c = Table df" "is_roster_file fl"
      "\<not> has_required_columns df"
      by (auto simp: skipped_with_warning_def split: csv_content.splits)
    with True x show ?thesis
      by (simp add: is_roster_file_def list_all_required split: prod.splits)
  next
    case False
    with Cons have "Warning (''Skipping '' @ fst e @ '': Missing required columns'')
        \<in> set (snd (scan_roster_files es))"
      by simp
    then show ?thesis
      by (auto simp: x split: prod.splits csv_content.splits sum.splits)
  qed
qed

lemma roster_rows_invalid: "\<not> valid_roster_entry e \<Longrightarrow> roster_rows e = []"
  by (simp add: roster_rows_def split: csv_content.splits)

lemma concat_roster_rows_valid:
  "concat (map roster_rows (filter valid_roster_entry es)) = concat (map roster_rows es)"
  by (induction es) (auto simp: roster_rows_invalid)

lemma reindex_roster_rows:
  "reindex \<lparr>columns = CSV_COLUMNS, rows = roster_rows e\<rparr> CSV_COLUMNS = roster_rows e"
proof -
  have "map (row_get CSV_COLUMNS (map f CSV_COLUMNS)) CSV_COLUMNS = map f CSV_COLUMNS" for f
    by (rule map_cong) (simp_all add: row_get_map)
  then show ?thesis
    by (simp add: reindex_def roster_rows_def comp_def map_idI
        split: csv_content.splits)
qed

lemma columns_roster_frames:
  assumes "roster_frames es \<noteq> []"
  shows "union_columns (concat (map columns (roster_frames es))) = CSV_COLUMNS"
proof -
  have "\<forall>d\<in>set (roster_frames es). columns d = CSV_COLUMNS"
    by (auto simp: roster_frames_def)
  from union_columns_same[OF distinct_CSV_COLUMNS assms this] show ?thesis .
qed

lemma rows_roster_frames:
  "concat (map (\<lambda>d. reindex d CSV_COLUMNS) (roster_frames es)) = concat (map roster_rows es)"
  by (simp add: roster_frames_def comp_def reindex_roster_rows concat_roster_rows_valid)

lemma load_csv_files_Some:
  assumes "data_folder st = Some es"
  shows "load_csv_files lib st =
     \<lparr>columns = CSV_COLUMNS,
      rows = (if length (roster_frames es) \<le> 1 then concat (map roster_rows es)
              else retype (upcast lib (roster_frames es)) CSV_COLUMNS
                     (concat (map roster_rows es)))\<rparr>"
proof (cases "roster_frames es = []")
  case True
  then have "concat (map roster_rows es) = []"
    using rows_roster_frames[of es] by simp
  with True assms show ?thesis
    by (simp add: load_csv_files_def scan_roster_files_students empty_df_def)
next
  case False
  then show ?thesis
    using assms
    by (simp add: load_csv_files_def scan_roster_files_students pd_concat_def Let_def
        columns_roster_frames rows_roster_frames)
qed

lemma columns_load_csv_files: "columns (load_csv_files lib st) = CSV_COLUMNS"
  by (cases "data_folder st") (simp_all add: load_csv_files_Some, simp add: load_csv_files_def empty_df_def)

lemma row_get_wf3:
  assumes "length r = 3"
  shows "map (row_get CSV_COLUMNS r) CSV_COLUMNS = r"
proof -
  from assms obtain a b c where "r = [a, b, c]"
    by (auto simp: length_Suc_conv numeral_eq_Suc)
  then show ?thesis
    by (simp add: row_get_def CSV_COLUMNS_def)
qed

lemma filter_first_find:
  "(case filter P xs of [] \<Rightarrow> None | x # _ \<Rightarrow> Some (f x)) = map_option f (List.find P xs)"
  by (induction xs) auto

lemma find_student_find:
  "find_student lib st ident partial =
     map_option (to_dict (columns (load_csv_files lib st)))
       (List.find (\<lambda>r. phone_matches ident partial
                          (row_get (columns (load_csv_files lib st)) r ''phone_number''))
          (rows (load_csv_files lib st)))"
proof -
  have "''phone_number'' \<in> set (columns (load_csv_files lib st))"
    by (simp add: columns_load_csv_files CSV_COLUMNS_def)
  then have "df_col (load_csv_files lib st) ''phone_number'' =
             Inr (col_values (load_csv_files lib st) ''phone_number'')"
    by (simp add: df_col_def)
  then show ?thesis
    by (simp add: find_student_def Let_def rows_df_where filter_first_find)
qed

lemma py_endswith_iff: "py_endswith s suf \<longleftrightarrow> (\<exists>pre. s = pre @ suf)"
proof
  assume "py_endswith s suf"
  then have "s = take (length s - length suf) s @ suf"
    by (metis append_take_drop_id py_endswith_def)
  then show "\<exists>pre. s = pre @ suf" ..
next
  assume "\<exists>pre. s = pre @ suf"
  then show "py_endswith s suf"
    by (auto simp: py_endswith_def)
qed

lemma ex_twins_roster:
  "load_csv_files pandas_plain ex_twins_fs =
     \<lparr>columns = [''name'', ''phone_number'', ''photo''],
      rows = [[''Alice'', ''5551234'', ''a.jpg''], [''Bob'', ''5555678'', ''b.jpg''],
              [''Eve'', ''7771234'', ''e.jpg'']]\<rparr>"
  by code_simp

lemma find_student_partial_iff:
  "find_student lib st d True \<noteq> None \<longleftrightarrow>
   (\<exists>v\<in>set (col_values (load_csv_files lib st) ''phone_number''). py_endswith v (last4 d))"
  by (auto simp: find_student_find find_None_iff col_values_def phone_matches_def)

lemma search_student_valid:
  assumes "4 \<le> length d" and "py_isdigit d"
  shows "search_student lib st (Some d) =
     (case find_student lib st d True of
        Some stu \<Rightarrow>
          if photo stu \<in> set (photos_folder st)
          then JsonStudent stu (get_attendance_history st (phone_number stu))
          else JsonError (''Photo not found at '' @ photo stu)
      | None \<Rightarrow> JsonError ''Student not found'')"
proof -
  from assms(1) have "d \<noteq> []" by auto
  with assms show ?thesis
    by (simp add: search_student_def)
qed

lemma last4_suffix: "4 \<le> length d \<Longrightarrow> length (last4 d) = 4 \<and> (\<exists>pre. d = pre @ last4 d)"
  by (auto simp: last4_def intro: exI[of _ "take (length d - 4) d"])

lemma ex_roster_loaded: "load_csv_files pandas_plain ex_fs = ex_roster"
  by code_simp

lemma ex_roster_phones: "col_values ex_roster ''phone_number'' = [''5551234'', ''5555678'']"
  by (simp add: col_values_def ex_roster_def row_get_def)

lemma view_ids_df_where:
  "view_ids (df_where df (map P (col_values df c))) =
     map (\<lambda>r. row_get (columns df) r ''phone_number'')
       (filter (\<lambda>r. P (row_get (columns df) r c)) (rows df))"
  by (simp add: view_ids_def col_values_def[of "df_where df sel" for sel] columns_df_where
      rows_df_where)

lemma attendance_list_Inr:
  assumes "attendance_list lib st c s = Inr v"
  shows "''status'' \<in> set (columns (load_attendance st c s))"
    and "''phone_number'' \<in> set (columns (load_attendance st c s))"
    and "present_students v = df_where (load_attendance st c s)
           (map (\<lambda>x. x = ''entry'') (col_values (load_attendance st c s) ''status''))"
    and "rejected_students v = df_where (load_attendance st c s)
           (map (\<lambda>x. x = ''reject'') (col_values (load_attendance st c s) ''status''))"
    and "exited_students v = df_where (load_attendance st c s)
           (map (\<lambda>x. x = ''exit'') (col_values (load_attendance st c s) ''status''))"
    and "absent_students v = df_where (load_csv_files lib st)
           (map (\<lambda>x. x \<notin> set (view_ids (present_students v)))
              (col_values (load_csv_files lib st) ''phone_number''))"
  using assms
  by (auto simp: attendance_list_def Let_def df_col_def columns_df_where view_ids_def
      split: if_splits)

lemma disjoint_ids:
  assumes "distinct (map f xs)" and "\<And>x. \<not> (P x \<and> Q x)"
  shows "set (map f (filter P xs)) \<inter> set (map f (filter Q xs)) = {}"
proof -
  from assms(1) have inj: "inj_on f (set xs)"
    by (simp add: distinct_map)
  show ?thesis
  proof (rule ccontr)
    assume "set (map f (filter P xs)) \<inter> set (map f (filter Q xs)) \<noteq> {}"
    then obtain x y where "x \<in> set xs" "P x" "y \<in> set xs" "Q y" "f x = f y"
      by auto
    with inj have "x = y" by (auto dest: inj_onD)
    with \<open>P x\<close> \<open>Q y\<close> assms(2) show False by blast
  qed
qed

lemma download_absent_of_views:
  assumes "attendance_list lib st c s = Inr v"
  shows "download_absent lib st c s = df_project (absent_students v) [''name'', ''phone_number'']"
  using assms
  by (auto simp: attendance_list_def download_absent_def Let_def df_col_def columns_df_where
      split: if_splits)

lemma ex_two_records_views: "attendance_list pandas_plain ex_two_records ''1'' ''1'' = Inr ex_views"
  by code_simp

lemma ex_two_records_ids: "view_ids (load_attendance ex_two_records ''1'' ''1'') = [''5551234'', ''5555678'']"
  by code_simp

lemma matching_rows_read:
  assumes "read_csv folder f = Inr df"
  shows "rows (df_where df (map (\<lambda>v. v = p) (col_values df ''phone_number''))) =
         matching_rows folder p f"
  by (simp add: matching_rows_def assms rows_df_where)

lemma scan_history_skip:
  assumes "\<not> file_raises folder p f" and "\<not> contributes folder p f"
  shows "scan_history folder p (f # fs) = scan_history folder p fs"
proof (cases "py_endswith f ''.csv''")
  case False
  then show ?thesis by simp
next
  case True
  with assms(1) obtain df where df: "read_csv folder f = Inr df"
    and col: "''phone_number'' \<in> set (columns df)"
    by (auto simp: file_raises_def split: sum.splits)
  from assms(2) True have "matching_rows folder p f = []"
    by (simp add: contributes_def)
  with True df col show ?thesis
    by (simp add: df_col_def matching_rows_read[OF df])
qed

lemma scan_history_entry:
  assumes "\<not> file_raises folder p f" and "contributes folder p f"
  shows "scan_history folder p (f # fs) =
         (case scan_history folder p fs of
            Inl e \<Rightarrow> Inl e
          | Inr h \<Rightarrow> Inr (entry_of folder p f # h))"
proof -
  from assms(2) have csv: "py_endswith f ''.csv''" and m: "matching_rows folder p f \<noteq> []"
    by (simp_all add: contributes_def)
  from assms(1) csv m obtain df where df: "read_csv folder f = Inr df"
    and col: "''phone_number'' \<in> set (columns df)" "''status'' \<in> set (columns df)"
      "''timestamp'' \<in> set (columns df)"
    by (auto simp: file_raises_def split: sum.splits)
  from m obtain r rs where r: "matching_rows folder p f = r # rs"
    by (cases "matching_rows folder p f") auto
  show ?thesis
    using csv df col r
    by (simp add: df_col_def matching_rows_read[OF df] row_item_def entry_of_def
        split: sum.splits)
qed

lemma scan_history_raises:
  assumes "file_raises folder p f"
  shows "\<exists>e. scan_history folder p (f # fs) = Inl e"
proof -
  from assms have csv: "py_endswith f ''.csv''"
    by (simp add: file_raises_def)
  show ?thesis
  proof (cases "read_csv folder f")
    case (Inl e)
    with csv show ?thesis by simp
  next
    case (Inr df)
    show ?thesis
    proof (cases "''phone_number'' \<in> set (columns df)")
      case False
      with csv Inr show ?thesis by (simp add: df_col_def)
    next
      case True
      with assms Inr obtain r rs where r: "matching_rows folder p f = r # rs"
        and bad: "''status'' \<notin> set (columns df) \<or> ''timestamp'' \<notin> set (columns df)"
        by (cases "matching_rows folder p f") (auto simp: file_raises_def)
      with csv Inr True show ?thesis
        by (auto simp: df_col_def matching_rows_read[OF Inr] row_item_def split: sum.splits)
    qed
  qed
qed

lemma scan_history_ok:
  "\<forall>f\<in>set fs. \<not> file_raises folder p f \<Longrightarrow>
   scan_history folder p fs = Inr (map (entry_of folder p) (filter (contributes folder p) fs))"
proof (induction fs)
  case Nil
  show ?case by simp
next
  case (Cons f fs)
  then have nr: "\<not> file_raises folder p f"
    and ih: "scan_history folder p fs =
             Inr (map (entry_of folder p) (filter (contributes folder p) fs))"
    by simp_all
  show ?case
  proof (cases "contributes folder p f")
    case True
    show ?thesis
      by (subst scan_history_entry[OF nr True]) (simp add: ih True)
  next
    case False
    show ?thesis
      by (subst scan_history_skip[OF nr False]) (simp add: ih False)
  qed
qed

lemma scan_history_fails:
  "\<exists>f\<in>set fs. file_raises folder p f \<Longrightarrow> \<exists>e. scan_history folder p fs = Inl e"
proof (induction fs)
  case Nil
  then show ?case by simp
next
  case (Cons f fs)
  show ?case
  proof (cases "file_raises folder p f")
    case True
    then show ?thesis by (rule scan_history_raises)
  next
    case False
    with Cons obtain e where e: "scan_history folder p fs = Inl e"
      by auto
    show ?thesis
    proof (cases "contributes folder p f")
      case True
      show ?thesis
        by (subst scan_history_entry[OF False True]) (simp add: e)
    next
      case c: False
      show ?thesis
        by (subst scan_history_skip[OF False c]) (simp add: e)
    qed
  qed
qed

lemma get_attendance_history_eq:
  "get_attendance_history st p =
     (if \<exists>f\<in>set (history_window st). file_raises (attendance_folder st) p f then []
      else map (entry_of (attendance_folder st) p)
             (filter (contributes (attendance_folder st) p) (history_window st)))"
proof (cases "\<exists>f\<in>set (history_window st). file_raises (attendance_folder st) p f")
  case True
  from scan_history_fails[OF this] obtain e where
    "scan_history (attendance_folder st) p (history_window st) = Inl e" ..
  with True show ?thesis
    by (simp add: get_attendance_history_def)
next
  case False
  then have "\<forall>f\<in>set (history_window st). \<not> file_raises (attendance_folder st) p f"
    by simp
  from scan_history_ok[OF this] False show ?thesis
    by (simp add: get_attendance_history_def)
qed

lemma history_window_greatest:
  assumes "f \<in> set (history_window st)" and "g \<in> fst ` set (attendance_folder st)"
      and "g \<notin> set (history_window st)"
  shows "g \<le> f"
proof -
  let ?xs = "rev (sort (map fst (attendance_folder st)))"
  have "sorted_wrt (\<lambda>x y. y \<le> x) ?xs"
    by (simp add: sorted_wrt_rev)
  then have s: "sorted_wrt (\<lambda>x y. y \<le> x) (take 5 ?xs @ drop 5 ?xs)"
    by simp
  from assms(2) have "g \<in> set ?xs"
    by simp
  then have "g \<in> set (take 5 ?xs) \<union> set (drop 5 ?xs)"
    by (metis append_take_drop_id set_append)
  with assms(3) have "g \<in> set (drop 5 ?xs)"
    by (simp add: history_window_def)
  with s assms(1) show ?thesis
    unfolding sorted_wrt_append history_window_def by blast
qed

lemma history_window_sorted: "sorted (rev (history_window st))"
  by (simp add: history_window_def rev_take sorted_wrt_drop)

lemma ex_six_folder:
  "attendance_folder ex_six_sessions =
     [(''attendance_course_1_session_5.csv'',
       \<lparr>mtime = ex_time 1,
        content = Table \<lparr>columns = [''name'', ''phone_number'', ''status'', ''timestamp''],
          rows = [[''Alice'', ''5551234'', ''entry'', ''2024-03-01 09:00:00'']]\<rparr>\<rparr>),
      (''attendance_course_1_session_6.csv'',
       \<lparr>mtime = ex_time 2,
        content = Table \<lparr>columns = [''name'', ''phone_number'', ''status'', ''timestamp''],
          rows = [[''Bob'', ''5555678'', ''entry'', ''2024-03-02 09:00:00'']]\<rparr>\<rparr>),
      (''attendance_course_1_session_7.csv'',
       \<lparr>mtime = ex_time 3,
        content = Table \<lparr>columns = [''name'', ''phone_number'', ''status'', ''timestamp''],
          rows = [[''Bob'', ''5555678'', ''entry'', ''2024-03-03 09:00:00'']]\<rparr>\<rparr>),
      (''attendance_course_1_session_8.csv'',
       \<lparr>mtime = ex_time 4,
        content = Table \<lparr>columns = [''name'', ''phone_number'', ''status'', ''timestamp''],
          rows = [[''Bob'', ''5555678'', ''entry'', ''2024-03-04 09:00:00'']]\<rparr>\<rparr>),
      (''attendance_course_1_session_9.csv'',
       \<lparr>mtime = ex_time 5,
        content = Table \<lparr>columns = [''name'', ''phone_number'', ''status'', ''timestamp''],
          rows = [[''Bob'', ''5555678'', ''entry'', ''2024-03-05 09:00:00'']]\<rparr>\<rparr>),
      (''attendance_course_1_session_10.csv'',
       \<lparr>mtime = ex_time 6,
        content = Table \<lparr>columns = [''name'', ''phone_number'', ''status'', ''timestamp''],
          rows = [[''Alice'', ''5551234'', ''entry'', ''2024-03-06 09:00:00'']]\<rparr>\<rparr>)]"
  by code_simp

lemma ex_six_window:
  "history_window ex_six_sessions =
     [''attendance_course_1_session_9.csv'', ''attendance_course_1_session_8.csv'',
      ''attendance_course_1_session_7.csv'', ''attendance_course_1_session_6.csv'',
      ''attendance_course_1_session_5.csv'']"
  unfolding history_window_def ex_six_folder by code_simp

lemma ex_six_no_raise:
  "\<not> list_ex (file_raises (attendance_folder ex_six_sessions) p) (history_window ex_six_sessions)"
  unfolding ex_six_window ex_six_folder
  by (simp add: file_raises_def read_csv_def py_endswith_def)

lemma ex_six_alice:
  "map (entry_of (attendance_folder ex_six_sessions) ''5551234'')
     (filter (contributes (attendance_folder ex_six_sessions) ''5551234'')
        (history_window ex_six_sessions)) =
   [\<lparr>session = ''course_1_session_5'', status = ''entry'',
     timestamp = ''2024-03-01 09:00:00''\<rparr>]"
  unfolding ex_six_window ex_six_folder by code_simp

lemma ex_six_stranger:
  "list_all (\<lambda>f. \<not> contributes (attendance_folder ex_six_sessions) ''0000000'' f)
     (history_window ex_six_sessions)"
  unfolding ex_six_window ex_six_folder by code_simp

section \<open>Duplicate-checked append\<close>

lemma ex_zed_recorded_eq:
  "ex_zed_recorded =
     ex_zed_fs\<lparr>attendance_folder :=
        [(''attendance_course_1_session_1.csv'',
          \<lparr>mtime = ex_time 1,
           content = Table \<lparr>columns = [''name'', ''phone_number'', ''status'', ''timestamp''],
             rows = [[''Zed'', ''551234'', ''entry'', ''2024-03-01 09:00:00'']]\<rparr>\<rparr>)]\<rparr>"
  by code_simp

text \<open>
  C1. The claim fails on the code for a phone number that is text with a leading zero.
  Zed's phone 0551234 stands in a roster column that pandas reads as text. His first
  append is answered with success and writes 0551234; read back, the column holds the
  integer 551234. The second append for the same identifier, here with the status exit,
  compares 0551234 with 551234, is not a duplicate and is answered with success as well:
  the table it writes holds two events of Zed.
\<close>

theorem duplicate_append_accepted:
  "find_student pandas_digits ex_zed_fs ''0551234'' False = Some ex_zed \<and>
   update_attendance pandas_digits ex_zed_fs ''0551234'' ''entry'' ''1'' ''1'' (ex_time 1) =
     (JsonMessage ''Attendance recorded successfully'', ex_zed_recorded) \<and>
   load_attendance ex_zed_recorded ''1'' ''1'' =
     \<lparr>columns = [''name'', ''phone_number'', ''status'', ''timestamp''],
      rows = [[''Zed'', ''551234'', ''entry'', ''2024-03-01 09:00:00'']]\<rparr> \<and>
   fst (update_attendance pandas_digits ex_zed_recorded ''0551234'' ''exit'' ''1'' ''1'' (ex_time 2)) =
     JsonMessage ''Attendance recorded successfully'' \<and>
   fst (save_attendance pandas_digits ex_zed_recorded ex_zed ''exit'' ''1'' ''1'' (ex_time 2)) = Saved \<and>
   pd_concat pandas_digits
       [load_attendance ex_zed_recorded ''1'' ''1'', new_entry ex_zed ''exit'' (ex_time 2)] =
     \<lparr>columns = [''name'', ''phone_number'', ''status'', ''timestamp''],
      rows = [[''Zed'', ''551234'', ''entry'', ''2024-03-01 09:00:00''],
              [''Zed'', ''0551234'', ''exit'', ''2024-03-02 09:00:00'']]\<rparr> \<and>
   col_values (load_attendance
       (snd (save_attendance pandas_digits ex_zed_recorded ex_zed ''exit'' ''1'' ''1'' (ex_time 2)))
       ''1'' ''1'') ''name'' = [''Zed'', ''Zed'']"
  unfolding ex_zed_recorded_eq by code_simp

section \<open>Derived views\<close>

text \<open>
  C2, as the code has it. \<open>attendance_list\<close> gives present, rejected and exited as the
  session's records with status entry, reject and exit, in record order, and absent as
  the roster rows whose identifier is in no record with status entry. So absent and
  present share no identifier, and the four views together, restricted to the roster's
  identifiers, give all of them; when no identifier occurs twice among the session's
  records, present, rejected and exited share no identifier either. A roster member whose
  record is a reject or an exit is in absent as well. \<open>download_absent\<close> exports the name
  and phone number of the same absent rows.
\<close>

theorem attendance_list_views:
  assumes "attendance_list lib st c s = Inr v"
  shows "rows (present_students v) =
           filter (\<lambda>r. row_get (columns (load_attendance st c s)) r ''status'' = ''entry'')
             (rows (load_attendance st c s)) \<and>
         rows (rejected_students v) =
           filter (\<lambda>r. row_get (columns (load_attendance st c s)) r ''status'' = ''reject'')
             (rows (load_attendance st c s)) \<and>
         rows (exited_students v) =
           filter (\<lambda>r. row_get (columns (load_attendance st c s)) r ''status'' = ''exit'')
             (rows (load_attendance st c s)) \<and>
         rows (absent_students v) =
           filter (\<lambda>r. row_get (columns (load_csv_files lib st)) r ''phone_number''
                         \<notin> set (view_ids (present_students v)))
             (rows (load_csv_files lib st)) \<and>
         set (view_ids (present_students v)) \<inter> set (view_ids (absent_students v)) = {} \<and>
         (set (view_ids (present_students v)) \<union> set (view_ids (rejected_students v)) \<union>
          set (view_ids (exited_students v)) \<union> set (view_ids (absent_students v))) \<inter>
           set (view_ids (load_csv_files lib st)) = set (view_ids (load_csv_files lib st)) \<and>
         (distinct (view_ids (load_attendance st c s)) \<longrightarrow>
            set (view_ids (present_students v)) \<inter> set (view_ids (rejected_students v)) = {} \<and>
            set (view_ids (present_students v)) \<inter> set (view_ids (exited_students v)) = {} \<and>
            set (view_ids (rejected_students v)) \<inter> set (view_ids (exited_students v)) = {}) \<and>
         download_absent lib st c s =
           Inr \<lparr>columns = [''name'', ''phone_number''],
                rows = reindex (absent_students v) [''name'', ''phone_number'']\<rparr>"
proof -
  let ?att = "load_attendance st c s"
  let ?ros = "load_csv_files lib st"
  note v = attendance_list_Inr[OF assms]
  have p: "rows (present_students v) =
           filter (\<lambda>r. row_get (columns ?att) r ''status'' = ''entry'') (rows ?att)"
    and r: "rows (rejected_students v) =
           filter (\<lambda>r. row_get (columns ?att) r ''status'' = ''reject'') (rows ?att)"
    and e: "rows (exited_students v) =
           filter (\<lambda>r. row_get (columns ?att) r ''status'' = ''exit'') (rows ?att)"
    and a: "rows (absent_students v) =
           filter (\<lambda>r. row_get (columns ?ros) r ''phone_number''
                         \<notin> set (view_ids (present_students v))) (rows ?ros)"
    by (simp_all only: v(3-6) rows_df_where)
  have pid: "view_ids (present_students v) = map (\<lambda>r. row_get (columns ?att) r ''phone_number'')
           (filter (\<lambda>r. row_get (columns ?att) r ''status'' = ''entry'') (rows ?att))"
    and rid: "view_ids (rejected_students v) = map (\<lambda>r. row_get (columns ?att) r ''phone_number'')
           (filter (\<lambda>r. row_get (columns ?att) r ''status'' = ''reject'') (rows ?att))"
    and eid: "view_ids (exited_students v) = map (\<lambda>r. row_get (columns ?att) r ''phone_number'')
           (filter (\<lambda>r. row_get (columns ?att) r ''status'' = ''exit'') (rows ?att))"
    by (simp_all only: v(3-5) view_ids_df_where)
  have aid: "view_ids (absent_students v) =
           filter (\<lambda>x. x \<notin> set (view_ids (present_students v))) (view_ids ?ros)"
    by (simp only: v(6) view_ids_df_where)
       (simp add: view_ids_def col_values_def filter_map comp_def)
  have pa: "set (view_ids (present_students v)) \<inter> set (view_ids (absent_students v)) = {}"
    unfolding aid by auto
  have cover: "(set (view_ids (present_students v)) \<union> set (view_ids (rejected_students v)) \<union>
          set (view_ids (exited_students v)) \<union> set (view_ids (absent_students v))) \<inter>
           set (view_ids ?ros) = set (view_ids ?ros)"
    unfolding aid by auto
  have dis: "set (view_ids (present_students v)) \<inter> set (view_ids (rejected_students v)) = {} \<and>
            set (view_ids (present_students v)) \<inter> set (view_ids (exited_students v)) = {} \<and>
            set (view_ids (rejected_students v)) \<inter> set (view_ids (exited_students v)) = {}"
    if "distinct (view_ids ?att)"
  proof -
    from that have d: "distinct (map (\<lambda>r. row_get (columns ?att) r ''phone_number'') (rows ?att))"
      by (simp add: view_ids_def col_values_def)
    show ?thesis
      unfolding pid rid eid by (intro conjI disjoint_ids[OF d]) simp_all
  qed
  have "columns (absent_students v) = CSV_COLUMNS"
    by (simp add: v(6) columns_df_where columns_load_csv_files)
  then have dl: "download_absent lib st c s =
           Inr \<lparr>columns = [''name'', ''phone_number''],
                rows = reindex (absent_students v) [''name'', ''phone_number'']\<rparr>"
    by (simp add: download_absent_of_views[OF assms] df_project_def CSV_COLUMNS_def)
  show ?thesis
    using p r e a pa cover dis dl by simp
qed

theorem attendance_list_views_witness:
  "attendance_list pandas_plain ex_two_records ''1'' ''1'' = Inr ex_views \<and>
   distinct (view_ids (load_attendance ex_two_records ''1'' ''1'')) \<and>
   view_ids (present_students ex_views) = [''5551234''] \<and>
   view_ids (rejected_students ex_views) = [''5555678''] \<and>
   view_ids (absent_students ex_views) = [''5555678''] \<and>
   set (view_ids (present_students ex_views)) \<inter> set (view_ids (rejected_students ex_views)) = {} \<and>
   set (view_ids (present_students ex_views)) \<inter> set (view_ids (absent_students ex_views)) = {} \<and>
   download_absent pandas_plain ex_two_records ''1'' ''1'' =
     Inr \<lparr>columns = [''name'', ''phone_number''], rows = [[''Bob'', ''5555678'']]\<rparr>"
proof -
  have d: "distinct (view_ids (load_attendance ex_two_records ''1'' ''1''))"
    by (simp add: ex_two_records_ids)
  have ids: "view_ids (present_students ex_views) = [''5551234'']"
    "view_ids (rejected_students ex_views) = [''5555678'']"
    "view_ids (absent_students ex_views) = [''5555678'']"
    by (simp_all add: ex_views_def view_ids_def col_values_def row_get_def)
  have re: "reindex (absent_students ex_views) [''name'', ''phone_number''] = [[''Bob'', ''5555678'']]"
    by (simp add: ex_views_def reindex_def row_get_def)
  note t = attendance_list_views[OF ex_two_records_views]
  have pr: "set (view_ids (present_students ex_views)) \<inter> set (view_ids (rejected_students ex_views)) = {}"
    using t d by blast
  have pa: "set (view_ids (present_students ex_views)) \<inter> set (view_ids (absent_students ex_views)) = {}"
    using t by blast
  have dl: "download_absent pandas_plain ex_two_records ''1'' ''1'' =
     Inr \<lparr>columns = [''name'', ''phone_number''], rows = [[''Bob'', ''5555678'']]\<rparr>"
    using t re by simp
  show ?thesis
    using ex_two_records_views d ids pr pa dl by simp
qed

text \<open>
  The claim as the specification words it fails: in the same session Bob, who was
  rejected, is in the rejected view and in the absent view, although a record of the
  session holds his identifier.
\<close>

theorem rejected_student_listed_absent:
  "attendance_list pandas_plain ex_two_records ''1'' ''1'' = Inr ex_views \<and>
   view_ids (rejected_students ex_views) = [''5555678''] \<and>
   view_ids (absent_students ex_views) = [''5555678''] \<and>
   view_ids (load_attendance ex_two_records ''1'' ''1'') = [''5551234'', ''5555678'']"
  by code_simp

section \<open>Partial lookup\<close>

text \<open>
  C3, as the code has it. The search request validates its input: an absent input, one
  shorter than four characters or one with a character that \<open>str.isdigit\<close> does not accept
  is answered with the validation error whatever the roster holds. For an input of at
  least four digits the lookup uses the last four characters of the input only: it finds
  a student exactly when some roster phone field, as a string, ends with these four, and
  the request answers that no student was found exactly when none does.
\<close>

theorem search_student_last_four:
  "(4 \<le> length d \<and> py_isdigit d \<longrightarrow>
      length (last4 d) = 4 \<and> (\<exists>pre. d = pre @ last4 d) \<and>
      (find_student lib st d True \<noteq> None \<longleftrightarrow>
         (\<exists>v\<in>set (col_values (load_csv_files lib st) ''phone_number''). \<exists>pre. v = pre @ last4 d)) \<and>
      (search_student lib st (Some d) = JsonError ''Student not found'' \<longleftrightarrow>
         \<not> (\<exists>v\<in>set (col_values (load_csv_files lib st) ''phone_number''). \<exists>pre. v = pre @ last4 d))) \<and>
   (length d < 4 \<or> \<not> list_all isdigit_char d \<longrightarrow>
      search_student lib st (Some d) = JsonError ''At least 4 digits required'') \<and>
   search_student lib st None = JsonError ''At least 4 digits required''"
proof -
  have valid: "length (last4 d) = 4 \<and> (\<exists>pre. d = pre @ last4 d) \<and>
      (find_student lib st d True \<noteq> None \<longleftrightarrow>
         (\<exists>v\<in>set (col_values (load_csv_files lib st) ''phone_number''). \<exists>pre. v = pre @ last4 d)) \<and>
      (search_student lib st (Some d) = JsonError ''Student not found'' \<longleftrightarrow>
         \<not> (\<exists>v\<in>set (col_values (load_csv_files lib st) ''phone_number''). \<exists>pre. v = pre @ last4 d))"
    if v: "4 \<le> length d" "py_isdigit d"
  proof -
    have found: "find_student lib st d True \<noteq> None \<longleftrightarrow>
         (\<exists>v\<in>set (col_values (load_csv_files lib st) ''phone_number''). \<exists>pre. v = pre @ last4 d)"
      unfolding find_student_partial_iff py_endswith_iff ..
    have "search_student lib st (Some d) = JsonError ''Student not found'' \<longleftrightarrow>
          find_student lib st d True = None"
      by (simp add: search_student_valid[OF v] split: option.splits)
    then have nf: "search_student lib st (Some d) = JsonError ''Student not found'' \<longleftrightarrow>
          \<not> find_student lib st d True \<noteq> None"
      by simp
    have flip: "(C \<longleftrightarrow> \<not> B)" if "A \<longleftrightarrow> B" "C \<longleftrightarrow> \<not> A" for A B C :: bool
      using that by blast
    have notfound: "search_student lib st (Some d) = JsonError ''Student not found'' \<longleftrightarrow>
         \<not> (\<exists>v\<in>set (col_values (load_csv_files lib st) ''phone_number''). \<exists>pre. v = pre @ last4 d)"
      by (rule flip[OF found nf])
    show ?thesis
      by (intro conjI found notfound conjunct1[OF last4_suffix[OF v(1)]]
          conjunct2[OF last4_suffix[OF v(1)]])
  qed
  have invalid: "search_student lib st (Some d) = JsonError ''At least 4 digits required''"
    if "length d < 4 \<or> \<not> list_all isdigit_char d"
    using that by (auto simp: search_student_def py_isdigit_def)
  have none: "search_student lib st None = JsonError ''At least 4 digits required''"
    by (simp add: search_student_def)
  show ?thesis
    using valid invalid none by blast
qed

theorem search_student_last_four_witness:
  "4 \<le> length ''991234'' \<and> py_isdigit ''991234'' \<and> last4 ''991234'' = ''1234'' \<and>
   find_student pandas_plain ex_fs ''991234'' True \<noteq> None \<and>
   search_student pandas_plain ex_fs (Some ''990000'') = JsonError ''Student not found'' \<and>
   length ''234'' < (4::nat) \<and>
   search_student pandas_plain ex_fs (Some ''234'') = JsonError ''At least 4 digits required'' \<and>
   \<not> list_all isdigit_char ''12a4'' \<and>
   search_student pandas_plain ex_fs (Some ''12a4'') = JsonError ''At least 4 digits required''"
proof -
  have v1: "4 \<le> length ''991234'' \<and> py_isdigit ''991234''"
    and v2: "4 \<le> length ''990000'' \<and> py_isdigit ''990000''"
    by (simp_all add: py_isdigit_def isdigit_char_def)
  have l: "last4 ''991234'' = ''1234''" "last4 ''990000'' = ''0000''"
    by (simp_all add: last4_def)
  have "\<exists>v\<in>set (col_values (load_csv_files pandas_plain ex_fs) ''phone_number''). \<exists>pre. v = pre @ last4 ''991234''"
    by (simp add: ex_roster_loaded ex_roster_phones l)
  with search_student_last_four[where d="''991234''" and st=ex_fs and lib=pandas_plain] v1
  have 1: "find_student pandas_plain ex_fs ''991234'' True \<noteq> None"
    by blast
  have "\<not> (\<exists>v\<in>set (col_values (load_csv_files pandas_plain ex_fs) ''phone_number''). \<exists>pre. v = pre @ last4 ''990000'')"
    by (simp add: ex_roster_loaded ex_roster_phones l flip: py_endswith_iff)
       (simp add: py_endswith_def)
  with search_student_last_four[where d="''990000''" and st=ex_fs and lib=pandas_plain] v2
  have 2: "search_student pandas_plain ex_fs (Some ''990000'') = JsonError ''Student not found''"
    by blast
  have s: "length ''234'' < (4::nat)" by simp
  with search_student_last_four[where d="''234''" and st=ex_fs and lib=pandas_plain]
  have 3: "search_student pandas_plain ex_fs (Some ''234'') = JsonError ''At least 4 digits required''"
    by blast
  have n: "\<not> list_all isdigit_char ''12a4''"
    by (simp add: isdigit_char_def)
  with search_student_last_four[where d="''12a4''" and st=ex_fs and lib=pandas_plain]
  have 4: "search_student pandas_plain ex_fs (Some ''12a4'') = JsonError ''At least 4 digits required''"
    by blast
  show ?thesis
    using v1 l(1) 1 2 s 3 n 4 by simp
qed

text \<open>
  The claim as the specification words it fails: the input 991234 has six digits and no
  roster phone ends with it, yet the lookup succeeds, with the student whose phone ends
  with 1234.
\<close>

theorem partial_lookup_ignores_leading_digits:
  "4 \<le> length ''991234'' \<and> py_isdigit ''991234'' \<and>
   find_student pandas_plain ex_fs ''991234'' True = Some ex_alice \<and>
   col_values (load_csv_files pandas_plain ex_fs) ''phone_number'' = [''5551234'', ''5555678''] \<and>
   \<not> py_endswith ''5551234'' ''991234'' \<and> \<not> py_endswith ''5555678'' ''991234''"
  by code_simp

section \<open>History\<close>

text \<open>
  C4, as the code has it. The history is taken from the first five names of the
  attendance folder in descending order of file name, whatever the number of files and
  whenever they were modified: the window is sorted by name, has at most five names of
  the folder, and every name of the folder outside it is below every name in it. When
  reading one of the window's session files raises, the history is empty. Otherwise it
  has, in the window's order, one entry for each session file of the window that holds
  the identifier, with the session label and the status and timestamp of the first
  matching record, and nothing for the other files. So it has at most five entries, it
  is empty when no file of the window holds the identifier, and it is never an error.
\<close>

theorem get_attendance_history_window:
  "get_attendance_history st p =
     (if \<exists>f\<in>set (history_window st). file_raises (attendance_folder st) p f then []
      else map (entry_of (attendance_folder st) p)
             (filter (contributes (attendance_folder st) p) (history_window st))) \<and>
   length (get_attendance_history st p) \<le> 5 \<and>
   ((\<forall>f\<in>set (history_window st). \<not> contributes (attendance_folder st) p f) \<longrightarrow>
      get_attendance_history st p = []) \<and>
   length (history_window st) \<le> 5 \<and>
   set (history_window st) \<subseteq> fst ` set (attendance_folder st) \<and>
   sorted (rev (history_window st)) \<and>
   (\<forall>f\<in>set (history_window st). \<forall>g\<in>fst ` set (attendance_folder st).
      g \<notin> set (history_window st) \<longrightarrow> g \<le> f)"
proof -
  note eq = get_attendance_history_eq[of st p]
  have len_w: "length (history_window st) \<le> 5"
    by (simp add: history_window_def)
  have "length (filter (contributes (attendance_folder st) p) (history_window st)) \<le> 5"
    using len_w by (rule order_trans[OF length_filter_le])
  then have len: "length (get_attendance_history st p) \<le> 5"
    by (simp add: eq)
  have empty: "get_attendance_history st p = []"
    if "\<forall>f\<in>set (history_window st). \<not> contributes (attendance_folder st) p f"
    using that by (simp add: eq filter_empty_conv)
  have sub: "set (history_window st) \<subseteq> fst ` set (attendance_folder st)"
    using set_take_subset[of 5 "rev (sort (map fst (attendance_folder st)))"]
    by (simp add: history_window_def)
  show ?thesis
    using eq len empty len_w sub history_window_sorted history_window_greatest
    by blast
qed

theorem get_attendance_history_window_witness:
  "history_window ex_six_sessions =
     [''attendance_course_1_session_9.csv'', ''attendance_course_1_session_8.csv'',
      ''attendance_course_1_session_7.csv'', ''attendance_course_1_session_6.csv'',
      ''attendance_course_1_session_5.csv''] \<and>
   get_attendance_history ex_six_sessions ''5551234'' =
     [\<lparr>session = ''course_1_session_5'', status = ''entry'',
       timestamp = ''2024-03-01 09:00:00''\<rparr>] \<and>
   get_attendance_history ex_six_sessions ''0000000'' = []"
proof -
  note t1 = get_attendance_history_window[of ex_six_sessions "''5551234''"]
  note t2 = get_attendance_history_window[of ex_six_sessions "''0000000''"]
  have nr: "\<not> (\<exists>f\<in>set (history_window ex_six_sessions).
      file_raises (attendance_folder ex_six_sessions) ''5551234'' f)"
    using ex_six_no_raise[of "''5551234''"] unfolding list_ex_iff .
  have "get_attendance_history ex_six_sessions ''5551234'' =
     (if \<exists>f\<in>set (history_window ex_six_sessions).
           file_raises (attendance_folder ex_six_sessions) ''5551234'' f then []
      else map (entry_of (attendance_folder ex_six_sessions) ''5551234'')
             (filter (contributes (attendance_folder ex_six_sessions) ''5551234'')
                (history_window ex_six_sessions)))"
    using t1 by (rule conjunct1)
  then have 1: "get_attendance_history ex_six_sessions ''5551234'' =
     [\<lparr>session = ''course_1_session_5'', status = ''entry'',
       timestamp = ''2024-03-01 09:00:00''\<rparr>]"
    using nr by (simp add: ex_six_alice)
  have nc: "\<forall>f\<in>set (history_window ex_six_sessions).
      \<not> contributes (attendance_folder ex_six_sessions) ''0000000'' f"
    using ex_six_stranger unfolding list_all_iff .
  have "(\<forall>f\<in>set (history_window ex_six_sessions).
      \<not> contributes (attendance_folder ex_six_sessions) ''0000000'' f) \<longrightarrow>
      get_attendance_history ex_six_sessions ''0000000'' = []"
    using t2 by (elim conjE)
  with nc have 2: "get_attendance_history ex_six_sessions ''0000000'' = []"
    by (rule rev_mp)
  show ?thesis
    using ex_six_window 1 2 by (intro conjI)
qed

text \<open>
  The claim as the specification words it fails. Sessions 5 to 10 were recorded on six
  days in a row and Alice attended the first and the last. Her history has session 5,
  which is not among the five session record sets modified most recently, and lacks
  session 10, the one modified last, which holds her record.
\<close>

theorem history_not_by_modification_time:
  "get_attendance_history ex_six_sessions ''5551234'' =
     [\<lparr>session = ''course_1_session_5'', status = ''entry'',
       timestamp = ''2024-03-01 09:00:00''\<rparr>] \<and>
   most_recent_sessions ex_six_sessions =
     [''attendance_course_1_session_10.csv'', ''attendance_course_1_session_9.csv'',
      ''attendance_course_1_session_8.csv'', ''attendance_course_1_session_7.csv'',
      ''attendance_course_1_session_6.csv''] \<and>
   matching_rows (attendance_folder ex_six_sessions) ''5551234''
     ''attendance_course_1_session_10.csv'' =
     [[''Alice'', ''5551234'', ''entry'', ''2024-03-06 09:00:00'']]"
  unfolding get_attendance_history_def history_window_def most_recent_sessions_def ex_six_folder
  by code_simp

section \<open>Loading a session\<close>

text \<open>
  C5. When the attendance folder has no file for a course and session, \<open>load_attendance\<close>
  returns, as its normal result, the table with the columns name, phone_number, status,
  timestamp and no rows.
\<close>

theorem load_attendance_no_file:
  assumes "map_of (attendance_folder st) (attendance_file c s) = None"
  shows "load_attendance st c s =
         \<lparr>columns = [''name'', ''phone_number'', ''status'', ''timestamp''], rows = []\<rparr>"
  using assms by (simp add: load_attendance_def empty_df_def ATTENDANCE_COLUMNS_def)

theorem load_attendance_no_file_witness:
  "map_of (attendance_folder ex_fs) (attendance_file ''1'' ''1'') = None \<and>
   load_attendance ex_fs ''1'' ''1'' =
     \<lparr>columns = [''name'', ''phone_number'', ''status'', ''timestamp''], rows = []\<rparr>"
proof -
  have h: "map_of (attendance_folder ex_fs) (attendance_file ''1'' ''1'') = None"
    by (simp add: ex_fs_def)
  from load_attendance_no_file[OF h] h show ?thesis
    by simp
qed

section \<open>Reset\<close>

lemma reset_attendance_removes:
  "map_of (attendance_folder (snd (reset_attendance st c s))) (attendance_file c s) = None"
  by (simp add: reset_attendance_def Let_def map_of_remove_file)

lemma filter_absent_key: "map_of es k = None \<Longrightarrow> filter (\<lambda>e. fst e \<noteq> k) es = es"
  by (induction es) (auto split: if_splits)

text \<open>
  C6. \<open>reset_attendance\<close> answers with the redirect whether or not the session has a file.
  When the session has no file it changes nothing. In every case it removes the
  session's file and nothing else: the other files of the attendance folder, the data
  folder and the photos stay as they are. A second reset right after the first answers
  the same and changes nothing, and after either of them \<open>load_attendance\<close> gives the
  empty table.
\<close>

theorem reset_attendance_idempotent:
  "fst (reset_attendance st c s) = Redirect \<and>
   reset_attendance (snd (reset_attendance st c s)) c s = (Redirect, snd (reset_attendance st c s)) \<and>
   load_attendance (snd (reset_attendance st c s)) c s = empty_df ATTENDANCE_COLUMNS \<and>
   rows (load_attendance (snd (reset_attendance st c s)) c s) = [] \<and>
   (map_of (attendance_folder st) (attendance_file c s) = None \<longrightarrow>
      reset_attendance st c s = (Redirect, st)) \<and>
   attendance_folder (snd (reset_attendance st c s)) =
     filter (\<lambda>e. fst e \<noteq> attendance_file c s) (attendance_folder st) \<and>
   (\<forall>f. f \<noteq> attendance_file c s \<longrightarrow>
      map_of (attendance_folder (snd (reset_attendance st c s))) f = map_of (attendance_folder st) f) \<and>
   data_folder (snd (reset_attendance st c s)) = data_folder st \<and>
   photos_folder (snd (reset_attendance st c s)) = photos_folder st"
proof -
  let ?st1 = "snd (reset_attendance st c s)"
  have gone: "map_of (attendance_folder ?st1) (attendance_file c s) = None"
    by (rule reset_attendance_removes)
  have first: "fst (reset_attendance st c s) = Redirect"
    by (simp add: reset_attendance_def Let_def)
  have again: "reset_attendance ?st1 c s = (Redirect, ?st1)"
    using gone by (simp add: reset_attendance_def[of ?st1] Let_def)
  have empty: "load_attendance ?st1 c s = empty_df ATTENDANCE_COLUMNS"
    using gone by (simp add: load_attendance_def)
  have noop: "reset_attendance st c s = (Redirect, st)"
    if "map_of (attendance_folder st) (attendance_file c s) = None"
    using that by (simp add: reset_attendance_def Let_def)
  have folder: "attendance_folder ?st1 =
      filter (\<lambda>e. fst e \<noteq> attendance_file c s) (attendance_folder st)"
    by (simp add: reset_attendance_def Let_def remove_file_def filter_absent_key)
  have others: "map_of (attendance_folder ?st1) f = map_of (attendance_folder st) f"
    if "f \<noteq> attendance_file c s" for f
    using that by (simp add: reset_attendance_def Let_def map_of_remove_file)
  have data: "data_folder ?st1 = data_folder st" "photos_folder ?st1 = photos_folder st"
    by (simp_all add: reset_attendance_def Let_def)
  show ?thesis
    using first again empty noop folder others data by (simp add: empty_df_def)
qed

lemma ex_two_files_folder:
  "attendance_folder ex_two_files =
     [(''attendance_course_1_session_1.csv'',
       \<lparr>mtime = ex_time 1,
        content = Table \<lparr>columns = [''name'', ''phone_number'', ''status'', ''timestamp''],
          rows = [[''Alice'', ''5551234'', ''entry'', ''2024-03-01 09:00:00'']]\<rparr>\<rparr>),
      (''attendance_course_1_session_2.csv'',
       \<lparr>mtime = ex_time 2,
        content = Table \<lparr>columns = [''name'', ''phone_number'', ''status'', ''timestamp''],
          rows = [[''Bob'', ''5555678'', ''entry'', ''2024-03-02 09:00:00'']]\<rparr>\<rparr>)]"
  by code_simp

theorem reset_attendance_idempotent_witness:
  "map_of (attendance_folder ex_fs) (attendance_file ''1'' ''1'') = None \<and>
   reset_attendance ex_fs ''1'' ''1'' = (Redirect, ex_fs) \<and>
   map fst (attendance_folder ex_two_files) =
     [''attendance_course_1_session_1.csv'', ''attendance_course_1_session_2.csv''] \<and>
   map fst (attendance_folder (snd (reset_attendance ex_two_files ''1'' ''1''))) =
     [''attendance_course_1_session_2.csv''] \<and>
   ''attendance_course_1_session_2.csv'' \<noteq> attendance_file ''1'' ''1'' \<and>
   map_of (attendance_folder (snd (reset_attendance ex_two_files ''1'' ''1'')))
     ''attendance_course_1_session_2.csv'' =
   map_of (attendance_folder ex_two_files) ''attendance_course_1_session_2.csv'' \<and>
   rows (load_attendance (snd (reset_attendance ex_two_files ''1'' ''1'')) ''1'' ''1'') = []"
proof -
  note a = reset_attendance_idempotent[of ex_fs "''1''" "''1''"]
  note b = reset_attendance_idempotent[of ex_two_files "''1''" "''1''"]
  have none: "map_of (attendance_folder ex_fs) (attendance_file ''1'' ''1'') = None"
    by (simp add: ex_fs_def)
  have noop: "reset_attendance ex_fs ''1'' ''1'' = (Redirect, ex_fs)"
    using a none by blast
  have names: "map fst (attendance_folder ex_two_files) =
     [''attendance_course_1_session_1.csv'', ''attendance_course_1_session_2.csv'']"
    by (simp add: ex_two_files_folder)
  have "attendance_folder (snd (reset_attendance ex_two_files ''1'' ''1'')) =
      filter (\<lambda>e. fst e \<noteq> attendance_file ''1'' ''1'') (attendance_folder ex_two_files)"
    using b by blast
  then have left: "map fst (attendance_folder (snd (reset_attendance ex_two_files ''1'' ''1''))) =
     [''attendance_course_1_session_2.csv'']"
    by (simp add: ex_two_files_folder attendance_file_def)
  have other: "''attendance_course_1_session_2.csv'' \<noteq> attendance_file ''1'' ''1''"
    by (simp add: attendance_file_def)
  have kept: "map_of (attendance_folder (snd (reset_attendance ex_two_files ''1'' ''1'')))
       ''attendance_course_1_session_2.csv'' =
     map_of (attendance_folder ex_two_files) ''attendance_course_1_session_2.csv''"
    using b other by blast
  have empty: "rows (load_attendance (snd (reset_attendance ex_two_files ''1'' ''1'')) ''1'' ''1'') = []"
    using b by blast
  show ?thesis
    using none noop names left other kept empty by (intro conjI)
qed

section \<open>Roster loading\<close>

lemma roster_rows_valid:
  assumes "snd e = Table df" and "is_roster_file (fst e)" and "has_required_columns df"
  shows "roster_rows e =
     map (\<lambda>r. [row_get (columns df) r ''name'', row_get (columns df) r ''phone_number'',
               row_get (columns df) r ''photo'']) (rows df)"
  using assms by (simp add: roster_rows_def valid_roster_entry_def reindex_def CSV_COLUMNS_def)

text \<open>
  C7, as the code has it. When the listing of the data folder fails, \<open>load_csv_files\<close>
  returns the empty table with the columns name, phone_number, photo. Otherwise its
  columns are these three in this order and it has one row for each row of each valid
  file (a readable roster file that has the three columns), file by file in listing
  order and row by row. Each row is reduced to the cells under name, phone_number and
  photo, in this order: a valid file with its columns in another order is reordered, and
  its other columns are left out. With one valid file the cells are these; with more,
  each cell has the text that \<open>pd.concat\<close> gives it, which is the same text where
  \<open>pd.concat\<close> changes none. A roster file without one of the columns gives no rows and
  a warning in the log; an unreadable file and a file that is not a roster file give no
  rows.
\<close>

theorem load_csv_files_concatenates_valid:
  "(data_folder st = None \<longrightarrow>
      load_csv_files lib st = \<lparr>columns = [''name'', ''phone_number'', ''photo''], rows = []\<rparr>) \<and>
   columns (load_csv_files lib st) = [''name'', ''phone_number'', ''photo''] \<and>
   (\<forall>es. data_folder st = Some es \<longrightarrow>
      length (rows (load_csv_files lib st)) = length (concat (map roster_rows es)) \<and>
      rows (load_csv_files lib st) =
        (if length (roster_frames es) \<le> 1 then concat (map roster_rows es)
         else retype (upcast lib (roster_frames es)) [''name'', ''phone_number'', ''photo'']
                (concat (map roster_rows es))) \<and>
      ((\<forall>i c t. upcast lib (roster_frames es) i c t = t) \<longrightarrow>
         rows (load_csv_files lib st) = concat (map roster_rows es)) \<and>
      (\<forall>e\<in>set es. skipped_with_warning e \<longrightarrow>
         roster_rows e = [] \<and>
         Warning (''Skipping '' @ fst e @ '': Missing required columns'')
           \<in> set (load_csv_files_log st)) \<and>
      (\<forall>e\<in>set es. snd e = Unreadable \<or> \<not> is_roster_file (fst e) \<longrightarrow> roster_rows e = []) \<and>
      (\<forall>e\<in>set es. \<forall>df. snd e = Table df \<and> is_roster_file (fst e) \<and>
         has_required_columns df \<longrightarrow>
         roster_rows e =
           map (\<lambda>r. [row_get (columns df) r ''name'', row_get (columns df) r ''phone_number'',
                     row_get (columns df) r ''photo'']) (rows df)))"
proof -
  have none: "load_csv_files lib st = \<lparr>columns = [''name'', ''phone_number'', ''photo''], rows = []\<rparr>"
    if "data_folder st = None"
    using that by (simp add: load_csv_files_def empty_df_def CSV_COLUMNS_def)
  have cols: "columns (load_csv_files lib st) = [''name'', ''phone_number'', ''photo'']"
    by (simp add: columns_load_csv_files CSV_COLUMNS_def)
  have rws: "rows (load_csv_files lib st) =
        (if length (roster_frames es) \<le> 1 then concat (map roster_rows es)
         else retype (upcast lib (roster_frames es)) [''name'', ''phone_number'', ''photo'']
                (concat (map roster_rows es)))"
    if "data_folder st = Some es" for es
    by (simp add: load_csv_files_Some[OF that] CSV_COLUMNS_def)
  have len: "length (rows (load_csv_files lib st)) = length (concat (map roster_rows es))"
    if "data_folder st = Some es" for es
    by (simp add: rws[OF that] length_retype)
  have plain: "rows (load_csv_files lib st) = concat (map roster_rows es)"
    if "data_folder st = Some es" "\<forall>i c t. upcast lib (roster_frames es) i c t = t" for es
  proof -
    have "\<forall>r\<in>set (concat (map roster_rows es)). length r = length CSV_COLUMNS"
      using length_reindexed[of CSV_COLUMNS "roster_frames es"]
      by (simp only: rows_roster_frames)
    then have "retype (upcast lib (roster_frames es)) CSV_COLUMNS (concat (map roster_rows es)) =
        concat (map roster_rows es)"
      by (rule retype_plain) (simp add: that(2))
    then show ?thesis
      by (simp add: load_csv_files_Some[OF that(1)])
  qed
  have warn: "roster_rows e = [] \<and>
      Warning (''Skipping '' @ fst e @ '': Missing required columns'') \<in> set (load_csv_files_log st)"
    if "data_folder st = Some es" "e \<in> set es" "skipped_with_warning e" for es e
  proof -
    have "\<not> valid_roster_entry e"
      using that(3) by (auto simp: skipped_with_warning_def valid_roster_entry_def
          split: csv_content.splits)
    then show ?thesis
      using scan_roster_files_warnings[OF that(2,3)] that(1)
      by (simp add: roster_rows_invalid load_csv_files_log_def)
  qed
  have out: "roster_rows e = []" if "snd e = Unreadable \<or> \<not> is_roster_file (fst e)" for e
    using that by (auto simp: roster_rows_def valid_roster_entry_def split: csv_content.splits)
  have valid: "roster_rows e =
      map (\<lambda>r. [row_get (columns df) r ''name'', row_get (columns df) r ''phone_number'',
                row_get (columns df) r ''photo'']) (rows df)"
    if "snd e = Table df \<and> is_roster_file (fst e) \<and> has_required_columns df" for e df
    using that by (simp add: roster_rows_valid)
  show ?thesis
    apply (intro conjI impI allI ballI)
    subgoal by (rule none)
    subgoal by (rule cols)
    subgoal by (rule len)
    subgoal by (rule rws)
    subgoal by (rule plain)
    subgoal using warn by blast
    subgoal using warn by blast
    subgoal by (rule out)
    subgoal by (rule valid)
    done
qed

lemma ex_mixed_frames:
  "roster_frames ex_mixed_folder =
     [\<lparr>columns = [''name'', ''phone_number'', ''photo''],
       rows = [[''Alice'', ''5551234'', ''a.jpg''], [''Bob'', ''5555678'', ''b.jpg'']]\<rparr>,
      \<lparr>columns = [''name'', ''phone_number'', ''photo''],
       rows = [[''Dan'', ''5559999'', ''d.jpg'']]\<rparr>]"
  by code_simp

theorem load_csv_files_concatenates_valid_witness:
  "data_folder ex_mixed_fs = Some ex_mixed_folder \<and>
   load_csv_files pandas_plain ex_mixed_fs =
     \<lparr>columns = [''name'', ''phone_number'', ''photo''],
      rows = [[''Alice'', ''5551234'', ''a.jpg''], [''Bob'', ''5555678'', ''b.jpg''],
              [''Dan'', ''5559999'', ''d.jpg'']]\<rparr> \<and>
   skipped_with_warning (ex_mixed_folder ! 1) \<and>
   Warning ''Skipping students_bad.csv: Missing required columns''
     \<in> set (load_csv_files_log ex_mixed_fs) \<and>
   snd (ex_mixed_folder ! 3) = Unreadable \<and>
   roster_rows (ex_mixed_folder ! 3) = [] \<and>
   snd (ex_mixed_folder ! 4) = Table ex_reordered \<and>
   roster_rows (ex_mixed_folder ! 4) = [[''Dan'', ''5559999'', ''d.jpg'']] \<and>
   data_folder (ex_mixed_fs\<lparr>data_folder := None\<rparr>) = None \<and>
   load_csv_files pandas_plain (ex_mixed_fs\<lparr>data_folder := None\<rparr>) =
     \<lparr>columns = [''name'', ''phone_number'', ''photo''], rows = []\<rparr>"
proof -
  have h: "data_folder ex_mixed_fs = Some ex_mixed_folder"
    by (simp add: ex_mixed_fs_def)
  have mem: "ex_mixed_folder ! 1 \<in> set ex_mixed_folder" "ex_mixed_folder ! 3 \<in> set ex_mixed_folder"
    "ex_mixed_folder ! 4 \<in> set ex_mixed_folder"
    by (simp_all add: ex_mixed_folder_def)
  have sk: "skipped_with_warning (ex_mixed_folder ! 1)"
    by code_simp
  have fst1: "fst (ex_mixed_folder ! 1) = ''students_bad.csv''"
    by (simp add: ex_mixed_folder_def)
  have unread: "snd (ex_mixed_folder ! 3) = Unreadable"
    by (simp add: ex_mixed_folder_def)
  have rr: "concat (map roster_rows ex_mixed_folder) =
      [[''Alice'', ''5551234'', ''a.jpg''], [''Bob'', ''5555678'', ''b.jpg''],
       [''Dan'', ''5559999'', ''d.jpg'']]"
    by code_simp
  have last: "snd (ex_mixed_folder ! 4) = Table ex_reordered"
    "is_roster_file (fst (ex_mixed_folder ! 4))" "has_required_columns ex_reordered"
    by (simp_all add: ex_mixed_folder_def ex_reordered_def is_roster_file_def py_endswith_def
        py_startswith_def has_required_columns_def CSV_COLUMNS_def)
  have proj: "map (\<lambda>r. [row_get (columns ex_reordered) r ''name'',
        row_get (columns ex_reordered) r ''phone_number'',
        row_get (columns ex_reordered) r ''photo'']) (rows ex_reordered) =
      [[''Dan'', ''5559999'', ''d.jpg'']]"
    by (simp add: ex_reordered_def row_get_def)
  have id: "\<forall>i c t. upcast pandas_plain (roster_frames ex_mixed_folder) i c t = t"
    by (simp add: pandas_plain_def)
  have none: "data_folder (ex_mixed_fs\<lparr>data_folder := None\<rparr>) = None"
    by simp
  note a = load_csv_files_concatenates_valid[where st=ex_mixed_fs and lib=pandas_plain]
  note b = load_csv_files_concatenates_valid[where st="ex_mixed_fs\<lparr>data_folder := None\<rparr>"
      and lib=pandas_plain]
  have cols: "columns (load_csv_files pandas_plain ex_mixed_fs) = [''name'', ''phone_number'', ''photo'']"
    using a by blast
  have rws: "rows (load_csv_files pandas_plain ex_mixed_fs) = concat (map roster_rows ex_mixed_folder)"
    using a h id by blast
  have tbl: "load_csv_files pandas_plain ex_mixed_fs =
     \<lparr>columns = [''name'', ''phone_number'', ''photo''],
      rows = [[''Alice'', ''5551234'', ''a.jpg''], [''Bob'', ''5555678'', ''b.jpg''],
              [''Dan'', ''5559999'', ''d.jpg'']]\<rparr>"
    using cols rws rr by (cases "load_csv_files pandas_plain ex_mixed_fs") simp
  have "Warning (''Skipping '' @ fst (ex_mixed_folder ! 1) @ '': Missing required columns'')
      \<in> set (load_csv_files_log ex_mixed_fs)"
    using a h mem(1) sk by blast
  then have w: "Warning ''Skipping students_bad.csv: Missing required columns''
      \<in> set (load_csv_files_log ex_mixed_fs)"
    unfolding fst1 by simp
  have gone: "roster_rows (ex_mixed_folder ! 3) = []"
    using a h mem(2) unread by blast
  have "roster_rows (ex_mixed_folder ! 4) =
      map (\<lambda>r. [row_get (columns ex_reordered) r ''name'',
        row_get (columns ex_reordered) r ''phone_number'',
        row_get (columns ex_reordered) r ''photo'']) (rows ex_reordered)"
    using a h mem(3) last by blast
  then have dan: "roster_rows (ex_mixed_folder ! 4) = [[''Dan'', ''5559999'', ''d.jpg'']]"
    by (simp only: proj)
  have empty: "load_csv_files pandas_plain (ex_mixed_fs\<lparr>data_folder := None\<rparr>) =
     \<lparr>columns = [''name'', ''phone_number'', ''photo''], rows = []\<rparr>"
    using b none by blast
  show ?thesis
    using h tbl sk w unread gone last(1) dan none empty by (intro conjI)
qed

text \<open>
  The claim as the specification words it fails, since the columns of a valid file are
  reordered: the only roster file has the columns photo, name, phone_number, group, and
  its row comes out as name, phone_number, photo.
\<close>

theorem roster_columns_reordered:
  "data_folder ex_reordered_fs =
     Some [(''students_a.csv'',
            Table \<lparr>columns = [''photo'', ''name'', ''phone_number'', ''group''],
                   rows = [[''d.jpg'', ''Dan'', ''5559999'', ''x'']]\<rparr>)] \<and>
   load_csv_files pandas_plain ex_reordered_fs =
     \<lparr>columns = [''name'', ''phone_number'', ''photo''],
      rows = [[''Dan'', ''5559999'', ''d.jpg'']]\<rparr>"
  by code_simp

section \<open>Resolving an identifier\<close>

text \<open>
  C8. \<open>find_student\<close>, in exact and in partial mode, returns no student exactly when no
  roster row matches the identifier, and otherwise the first matching row in the order
  of the roster: the row at the least index that matches. It has no other result.
\<close>

theorem find_student_first_match:
  "(find_student lib st ident partial = None \<longleftrightarrow>
      (\<forall>r\<in>set (rows (load_csv_files lib st)).
         \<not> phone_matches ident partial (row_get (columns (load_csv_files lib st)) r ''phone_number''))) \<and>
   (\<forall>stu. find_student lib st ident partial = Some stu \<longleftrightarrow>
      (\<exists>i<length (rows (load_csv_files lib st)).
         phone_matches ident partial
           (row_get (columns (load_csv_files lib st)) (rows (load_csv_files lib st) ! i) ''phone_number'') \<and>
         (\<forall>j<i. \<not> phone_matches ident partial
           (row_get (columns (load_csv_files lib st)) (rows (load_csv_files lib st) ! j) ''phone_number'')) \<and>
         stu = to_dict (columns (load_csv_files lib st)) (rows (load_csv_files lib st) ! i)))"
proof -
  let ?P = "\<lambda>r. phone_matches ident partial (row_get (columns (load_csv_files lib st)) r ''phone_number'')"
  let ?rs = "rows (load_csv_files lib st)"
  have none: "find_student lib st ident partial = None \<longleftrightarrow> (\<forall>r\<in>set ?rs. \<not> ?P r)"
    by (auto simp: find_student_find find_None_iff)
  have some: "find_student lib st ident partial = Some stu \<longleftrightarrow>
      (\<exists>i<length ?rs. ?P (?rs ! i) \<and> (\<forall>j<i. \<not> ?P (?rs ! j)) \<and>
         stu = to_dict (columns (load_csv_files lib st)) (?rs ! i))" for stu
  proof
    assume "find_student lib st ident partial = Some stu"
    then obtain r where f: "List.find ?P ?rs = Some r"
      and stu: "stu = to_dict (columns (load_csv_files lib st)) r"
      by (auto simp: find_student_find)
    from f obtain i where "i < length ?rs" "?P (?rs ! i)" "r = ?rs ! i" "\<forall>j<i. \<not> ?P (?rs ! j)"
      unfolding find_Some_iff by blast
    with stu show "\<exists>i<length ?rs. ?P (?rs ! i) \<and> (\<forall>j<i. \<not> ?P (?rs ! j)) \<and>
         stu = to_dict (columns (load_csv_files lib st)) (?rs ! i)"
      by blast
  next
    assume "\<exists>i<length ?rs. ?P (?rs ! i) \<and> (\<forall>j<i. \<not> ?P (?rs ! j)) \<and>
         stu = to_dict (columns (load_csv_files lib st)) (?rs ! i)"
    then obtain i where i: "i < length ?rs" "?P (?rs ! i)" "\<forall>j<i. \<not> ?P (?rs ! j)"
      and stu: "stu = to_dict (columns (load_csv_files lib st)) (?rs ! i)"
      by blast
    from i have "List.find ?P ?rs = Some (?rs ! i)"
      unfolding find_Some_iff by blast
    with stu show "find_student lib st ident partial = Some stu"
      by (simp add: find_student_find)
  qed
  show ?thesis
    using none some by blast
qed

theorem find_student_first_match_witness:
  "find_student pandas_plain ex_twins_fs ''1234'' True = Some ex_alice \<and>
   find_student pandas_plain ex_twins_fs ''7771234'' False =
     Some \<lparr>name = ''Eve'', phone_number = ''7771234'', photo = ''e.jpg''\<rparr> \<and>
   find_student pandas_plain ex_twins_fs ''0000'' True = None"
proof -
  let ?rs = "rows (load_csv_files pandas_plain ex_twins_fs)"
  let ?cols = "columns (load_csv_files pandas_plain ex_twins_fs)"
  let ?eve = "\<lparr>name = ''Eve'', phone_number = ''7771234'', photo = ''e.jpg''\<rparr>"
  have rs: "?rs = [[''Alice'', ''5551234'', ''a.jpg''], [''Bob'', ''5555678'', ''b.jpg''],
                   [''Eve'', ''7771234'', ''e.jpg'']]"
    and cols: "?cols = [''name'', ''phone_number'', ''photo'']"
    by (simp_all add: ex_twins_roster)
  have m: "phone_matches ''1234'' True ''5551234''"
    "\<not> phone_matches ''7771234'' False ''5551234''"
    "\<not> phone_matches ''7771234'' False ''5555678''" "phone_matches ''7771234'' False ''7771234''"
    "\<not> phone_matches ''0000'' True ''5551234''" "\<not> phone_matches ''0000'' True ''5555678''"
    "\<not> phone_matches ''0000'' True ''7771234''"
    by (simp_all add: phone_matches_def py_endswith_def last4_def)
  have g: "row_get [''name'', ''phone_number'', ''photo''] [a, b, c] ''phone_number'' = b" for a b c
    by (simp add: row_get_def)
  have "0 < length ?rs \<and> phone_matches ''1234'' True (row_get ?cols (?rs ! 0) ''phone_number'') \<and>
        (\<forall>j<0. \<not> phone_matches ''1234'' True (row_get ?cols (?rs ! j) ''phone_number'')) \<and>
        ex_alice = to_dict ?cols (?rs ! 0)"
    by (simp add: rs cols g m to_dict_def row_get_def ex_alice_def)
  with find_student_first_match[where st=ex_twins_fs and ident="''1234''" and partial=True and lib=pandas_plain]
  have 1: "find_student pandas_plain ex_twins_fs ''1234'' True = Some ex_alice"
    by blast
  have "2 < length ?rs \<and> phone_matches ''7771234'' False (row_get ?cols (?rs ! 2) ''phone_number'') \<and>
        (\<forall>j<2. \<not> phone_matches ''7771234'' False (row_get ?cols (?rs ! j) ''phone_number'')) \<and>
        ?eve = to_dict ?cols (?rs ! 2)"
    by (simp add: rs cols g m to_dict_def row_get_def numeral_2_eq_2 less_Suc_eq)
  with find_student_first_match[where st=ex_twins_fs and ident="''7771234''" and partial=False and lib=pandas_plain]
  have 2: "find_student pandas_plain ex_twins_fs ''7771234'' False = Some ?eve"
    by blast
  have "\<forall>r\<in>set ?rs. \<not> phone_matches ''0000'' True (row_get ?cols r ''phone_number'')"
    by (simp add: rs cols g m)
  with find_student_first_match[where st=ex_twins_fs and ident="''0000''" and partial=True and lib=pandas_plain]
  have 3: "find_student pandas_plain ex_twins_fs ''0000'' True = None"
    by blast
  show ?thesis
    using 1 2 3 by simp
qed

section \<open>Status values\<close>

text \<open>
  C9, as the code has it. \<open>save_attendance\<close> does not look at the status. An append for
  an identifier that the loaded records of the session do not hold, to a session whose
  table has the phone_number column, returns success for every status string, one of
  entry, exit, reject or not. It writes the session's file from the loaded table
  extended by one record, built from the individual's name and phone number, that status
  string as it was given and the timestamp. Where \<open>pd.concat\<close> leaves the text of the
  status column as it is, the status column written is the loaded one followed by that
  string.
\<close>

theorem save_attendance_any_status:
  assumes "''phone_number'' \<in> set (columns (load_attendance st c s))"
      and "phone_number stu \<notin> set (col_values (load_attendance st c s) ''phone_number'')"
  shows "save_attendance lib st stu stat c s now =
           (Saved,
            st\<lparr>attendance_folder :=
                 write_file (attendance_folder st) (attendance_file c s)
                   \<lparr>mtime = now,
                    content = read_back lib
                      (pd_concat lib [load_attendance st c s, new_entry stu stat now])\<rparr>\<rparr>) \<and>
         new_entry stu stat now =
           \<lparr>columns = [''name'', ''phone_number'', ''status'', ''timestamp''],
            rows = [[name stu, phone_number stu, stat, strftime now]]\<rparr> \<and>
         length (rows (pd_concat lib [load_attendance st c s, new_entry stu stat now])) =
           Suc (length (rows (load_attendance st c s))) \<and>
         ((\<forall>i t. upcast lib [load_attendance st c s, new_entry stu stat now] i ''status'' t = t) \<longrightarrow>
            col_values (pd_concat lib [load_attendance st c s, new_entry stu stat now]) ''status'' =
              col_values (load_attendance st c s) ''status'' @ [stat])"
proof -
  let ?frames = "[load_attendance st c s, new_entry stu stat now]"
  have saved: "save_attendance lib st stu stat c s now =
           (Saved,
            st\<lparr>attendance_folder :=
                 write_file (attendance_folder st) (attendance_file c s)
                   \<lparr>mtime = now, content = read_back lib (pd_concat lib ?frames)\<rparr>\<rparr>)"
    by (rule save_attendance_fresh[OF assms])
  have entry: "new_entry stu stat now =
           \<lparr>columns = [''name'', ''phone_number'', ''status'', ''timestamp''],
            rows = [[name stu, phone_number stu, stat, strftime now]]\<rparr>"
    by (simp add: new_entry_def ATTENDANCE_COLUMNS_def)
  have len: "length (rows (pd_concat lib ?frames)) = Suc (length (rows (load_attendance st c s)))"
    by (simp add: length_rows_pd_concat new_entry_def)
  have status: "col_values (pd_concat lib ?frames) ''status'' =
      col_values (load_attendance st c s) ''status'' @ [stat]"
    if "\<forall>i t. upcast lib ?frames i ''status'' t = t"
  proof -
    have "col_values (pd_concat lib ?frames) ''status'' =
        concat (map (\<lambda>d. col_values d ''status'') ?frames)"
      by (rule col_values_pd_concat) (simp add: that)
    then show ?thesis
      by (simp add: col_values_new_entry row_get_new_entry)
  qed
  show ?thesis
    using saved entry len status by blast
qed

theorem save_attendance_any_status_witness:
  "''phone_number'' \<in> set (columns (load_attendance ex_fs ''1'' ''1'')) \<and>
   phone_number ex_alice \<notin> set (col_values (load_attendance ex_fs ''1'' ''1'') ''phone_number'') \<and>
   fst (save_attendance pandas_plain ex_fs ex_alice ''late'' ''1'' ''1'' (ex_time 1)) = Saved \<and>
   col_values (pd_concat pandas_plain
       [load_attendance ex_fs ''1'' ''1'', new_entry ex_alice ''late'' (ex_time 1)]) ''status'' =
     [''late'']"
proof -
  have old: "load_attendance ex_fs ''1'' ''1'' = empty_df ATTENDANCE_COLUMNS"
    by (simp add: load_attendance_def ex_fs_def)
  have h1: "''phone_number'' \<in> set (columns (load_attendance ex_fs ''1'' ''1''))"
    by (simp add: old empty_df_def ATTENDANCE_COLUMNS_def)
  have h2: "phone_number ex_alice \<notin> set (col_values (load_attendance ex_fs ''1'' ''1'') ''phone_number'')"
    by (simp add: old empty_df_def col_values_def)
  have id: "\<forall>i t. upcast pandas_plain
      [load_attendance ex_fs ''1'' ''1'', new_entry ex_alice ''late'' (ex_time 1)] i ''status'' t = t"
    by (simp add: pandas_plain_def)
  have none: "col_values (load_attendance ex_fs ''1'' ''1'') ''status'' = []"
    by (simp add: old empty_df_def col_values_def)
  note t = save_attendance_any_status[OF h1 h2, where lib=pandas_plain and stat="''late''"
      and now="ex_time 1"]
  have saved: "fst (save_attendance pandas_plain ex_fs ex_alice ''late'' ''1'' ''1'' (ex_time 1)) = Saved"
    using t by simp
  have "col_values (pd_concat pandas_plain
       [load_attendance ex_fs ''1'' ''1'', new_entry ex_alice ''late'' (ex_time 1)]) ''status'' =
     col_values (load_attendance ex_fs ''1'' ''1'') ''status'' @ [''late'']"
    using t id by blast
  then have written: "col_values (pd_concat pandas_plain
       [load_attendance ex_fs ''1'' ''1'', new_entry ex_alice ''late'' (ex_time 1)]) ''status'' =
     [''late'']"
    by (simp only: none append_Nil)
  show ?thesis
    using h1 h2 saved written by (intro conjI)
qed

text \<open>
  The claim as the specification words it fails: a request with the status \<open>late\<close> for
  Alice is answered with success, and the session file then holds her with that status.
\<close>

theorem unknown_status_recorded:
  "update_attendance pandas_plain ex_fs ''5551234'' ''late'' ''1'' ''1'' (ex_time 1) =
     (JsonMessage ''Attendance recorded successfully'',
      ex_fs\<lparr>attendance_folder :=
        [(''attendance_course_1_session_1.csv'',
          \<lparr>mtime = ex_time 1,
           content = Table \<lparr>columns = [''name'', ''phone_number'', ''status'', ''timestamp''],
             rows = [[''Alice'', ''5551234'', ''late'', ''2024-03-01 09:00:00'']]\<rparr>\<rparr>)]\<rparr>)"
  by code_simp

section \<open>What an append writes\<close>

text \<open>
  C10. The claim fails on the code, by the defect of C1. The first append writes Zed's
  record with the phone 0551234. The next append, of Yan, loads the file, where the phone
  column now reads as the integer 551234, and writes the whole table again: in the
  session file the record of Zed is no longer the one that was recorded, its phone is
  551234.
\<close>

theorem append_rewrites_recorded_phone:
  "save_attendance pandas_digits ex_zed_fs ex_zed ''entry'' ''1'' ''1'' (ex_time 1) =
     (Saved, ex_zed_recorded) \<and>
   pd_concat pandas_digits
       [load_attendance ex_zed_fs ''1'' ''1'', new_entry ex_zed ''entry'' (ex_time 1)] =
     \<lparr>columns = [''name'', ''phone_number'', ''status'', ''timestamp''],
      rows = [[''Zed'', ''0551234'', ''entry'', ''2024-03-01 09:00:00'']]\<rparr> \<and>
   fst (save_attendance pandas_digits ex_zed_recorded ex_yan ''entry'' ''1'' ''1'' (ex_time 2)) = Saved \<and>
   pd_concat pandas_digits
       [load_attendance ex_zed_recorded ''1'' ''1'', new_entry ex_yan ''entry'' (ex_time 2)] =
     \<lparr>columns = [''name'', ''phone_number'', ''status'', ''timestamp''],
      rows = [[''Zed'', ''551234'', ''entry'', ''2024-03-01 09:00:00''],
              [''Yan'', ''555-1234'', ''entry'', ''2024-03-02 09:00:00'']]\<rparr>"
  unfolding ex_zed_recorded_eq by code_simp

end
